theory Spec2Isabelle
  imports Main
begin

section \<open>JavaScript values, exceptions and the browser\<close>

text \<open>
  The two loggers of the repository (the batching logger of \<^verbatim>\<open>src/unnamed/part_002\<close>
  and the simple logger of \<^verbatim>\<open>src/js/static-logger.js\<close>) keep plain JavaScript data:
  entries are object literals of strings, numbers and \<^verbatim>\<open>null\<close>, what the caller
  passes as \<^verbatim>\<open>data\<close>, and whatever \<^verbatim>\<open>JSON.parse\<close> gives back from the storage slot.
  The first six constructors are the JSON values; finite numbers are integers (screen
  sizes, line numbers). An object is an association list in the order of the object
  literal, and a property may hold \<^verbatim>\<open>undefined\<close> (\<open>None\<close>). The other constructors are
  values that a caller can pass and \<^verbatim>\<open>JSON.stringify\<close> does not keep: \<^verbatim>\<open>NaN\<close>, an
  infinity, a \<^verbatim>\<open>Date\<close> (given by its ISO string), and an object that holds a reference
  to itself besides the listed properties. Functions and symbols are not modelled.
\<close>

datatype json =
    JNull
  | JBool bool
  | JNum int
  | JStr string
  | JArr "json list"
  | JObj "(string \<times> json option) list"
  | JNaN
  | JInfinity
  | JDate string
  | JCyclic "(string \<times> json option) list"

text \<open>The exceptions that the modelled code can meet.\<close>

datatype js_error =
    TypeError      \<comment> \<open>a property read on \<^verbatim>\<open>null\<close>, a call of something that is not a function\<close>
  | SyntaxError    \<comment> \<open>\<^verbatim>\<open>JSON.parse\<close> on a text that is not JSON\<close>
  | StorageError   \<comment> \<open>\<^verbatim>\<open>localStorage\<close> unavailable, disabled or over quota\<close>

datatype 'a outcome = Returned 'a | Thrown js_error

text \<open>
  A value of type \<open>json option\<close> is a JavaScript value that may be \<^verbatim>\<open>undefined\<close>
  (\<open>None\<close>): a missing argument, a missing property, the result of a function
  without \<^verbatim>\<open>return\<close>.
\<close>

fun truthy :: "json \<Rightarrow> bool" where
  "truthy JNull = False"
| "truthy (JBool b) = b"
| "truthy (JNum n) = (n \<noteq> 0)"
| "truthy (JStr s) = (s \<noteq> [])"
| "truthy (JArr xs) = True"
| "truthy (JObj kvs) = True"
| "truthy JNaN = False"
| "truthy JInfinity = True"
| "truthy (JDate s) = True"
| "truthy (JCyclic kvs) = True"

fun truthy_opt :: "json option \<Rightarrow> bool" where
  "truthy_opt None = False"
| "truthy_opt (Some v) = truthy v"

text \<open>\<^verbatim>\<open>x || null\<close>, as in \<^verbatim>\<open>data: data || null\<close>.\<close>

definition or_null :: "json option \<Rightarrow> json" where
  "or_null x = (case x of None \<Rightarrow> JNull | Some v \<Rightarrow> if truthy v then v else JNull)"

text \<open>
  \<^verbatim>\<open>x.k\<close> for a property name \<open>k\<close> that no prototype defines (the code reads
  \<^verbatim>\<open>level\<close> and \<^verbatim>\<open>success\<close>): a \<^verbatim>\<open>TypeError\<close> on \<^verbatim>\<open>null\<close>, the own property of an
  object, \<^verbatim>\<open>undefined\<close> on everything else.
\<close>

fun js_get :: "json \<Rightarrow> string \<Rightarrow> json option outcome" where
  "js_get JNull k = Thrown TypeError"
| "js_get (JObj kvs) k = Returned (case map_of kvs k of None \<Rightarrow> None | Some v \<Rightarrow> v)"
| "js_get (JCyclic kvs) k = Returned (case map_of kvs k of None \<Rightarrow> None | Some v \<Rightarrow> v)"
| "js_get v k = Returned None"

text \<open>
  \<^verbatim>\<open>x.push(e)\<close>: only an array has \<^verbatim>\<open>push\<close>; on \<^verbatim>\<open>null\<close> the property read
  throws, on any other parsed value \<^verbatim>\<open>x.push\<close> is not a function.
\<close>

fun js_push :: "json \<Rightarrow> json \<Rightarrow> json outcome" where
  "js_push (JArr xs) e = Returned (JArr (xs @ [e]))"
| "js_push v e = Thrown TypeError"

text \<open>\<^verbatim>\<open>xs.slice(-n)\<close> on an array, for \<open>n > 0\<close>: its last \<open>n\<close> elements.\<close>

definition slice_last :: "nat \<Rightarrow> 'a list \<Rightarrow> 'a list" where
  "slice_last n xs = drop (length xs - n) xs"

text \<open>\<^verbatim>\<open>s.substring(a, b)\<close> for \<open>a \<le> b\<close>.\<close>

definition substring :: "nat \<Rightarrow> nat \<Rightarrow> string \<Rightarrow> string" where
  "substring a b s = take (b - a) (drop a s)"

definition opt_str :: "string option \<Rightarrow> json" where
  "opt_str x = (case x of None \<Rightarrow> JNull | Some s \<Rightarrow> JStr s)"

subsection \<open>\<^verbatim>\<open>JSON.stringify\<close> and the storage slot\<close>

text \<open>
  \<open>serialise v\<close> is the JSON value that the text \<^verbatim>\<open>JSON.stringify(v)\<close> denotes: a
  property that holds \<^verbatim>\<open>undefined\<close> is left out, \<^verbatim>\<open>NaN\<close> and the infinities become
  \<^verbatim>\<open>null\<close>, a \<^verbatim>\<open>Date\<close> becomes its ISO string, and an object that refers to itself
  makes \<^verbatim>\<open>JSON.stringify\<close> throw a \<^verbatim>\<open>TypeError\<close>. \<open>collect\<close> and \<open>collect_props\<close>
  gather the results of the elements and of the properties, the first exception winning.
\<close>

fun collect :: "'a outcome list \<Rightarrow> 'a list outcome" where
  "collect [] = Returned []"
| "collect (Thrown x # rs) = Thrown x"
| "collect (Returned v # rs) =
     (case collect rs of Thrown x \<Rightarrow> Thrown x | Returned vs \<Rightarrow> Returned (v # vs))"

fun collect_props ::
  "(string \<times> 'a outcome option) list \<Rightarrow> (string \<times> 'a option) list outcome" where
  "collect_props [] = Returned []"
| "collect_props ((k, None) # ps) = collect_props ps"
| "collect_props ((k, Some (Thrown x)) # ps) = Thrown x"
| "collect_props ((k, Some (Returned v)) # ps) =
     (case collect_props ps of
        Thrown x \<Rightarrow> Thrown x
      | Returned vs \<Rightarrow> Returned ((k, Some v) # vs))"

primrec serialise :: "json \<Rightarrow> json outcome" where
  "serialise JNull = Returned JNull"
| "serialise (JBool b) = Returned (JBool b)"
| "serialise (JNum n) = Returned (JNum n)"
| "serialise (JStr s) = Returned (JStr s)"
| "serialise (JArr xs) =
     (case collect (map serialise xs) of
        Thrown x \<Rightarrow> Thrown x
      | Returned ys \<Rightarrow> Returned (JArr ys))"
| "serialise (JObj kvs) =
     (case collect_props (map (map_prod (\<lambda>k. k) (map_option serialise)) kvs) of
        Thrown x \<Rightarrow> Thrown x
      | Returned ps \<Rightarrow> Returned (JObj ps))"
| "serialise JNaN = Returned JNull"
| "serialise JInfinity = Returned JNull"
| "serialise (JDate s) = Returned (JStr s)"
| "serialise (JCyclic kvs) = Thrown TypeError"

text \<open>
  \<^verbatim>\<open>localStorage\<close> holds a string under the key \<^verbatim>\<open>static_site_logs\<close>, or nothing.
  \<^verbatim>\<open>JSON.stringify\<close> and \<^verbatim>\<open>JSON.parse\<close> belong to the browser, not to the
  repository. A string is either a JSON text or any other string, on which
  \<^verbatim>\<open>JSON.parse\<close> throws. A JSON text is given by a value that \<^verbatim>\<open>JSON.stringify\<close>
  turns into it (every JSON text is, up to layout, \<^verbatim>\<open>JSON.stringify\<close> of the value it
  denotes); \<^verbatim>\<open>JSON.parse\<close> gives back the value that the text denotes, which is
  \<open>serialise\<close> of the value it was made from.
\<close>

datatype stored_text =
    JsonText json      \<comment> \<open>the text \<^verbatim>\<open>JSON.stringify(v)\<close>\<close>
  | OtherText string   \<comment> \<open>a string that is not a JSON text\<close>

fun text_truthy :: "stored_text option \<Rightarrow> bool" where
  "text_truthy None = False"                       \<comment> \<open>\<^verbatim>\<open>getItem\<close> gave \<^verbatim>\<open>null\<close>\<close>
| "text_truthy (Some (JsonText v)) = True"         \<comment> \<open>a JSON text is never empty\<close>
| "text_truthy (Some (OtherText s)) = (s \<noteq> [])"

fun JSON_parse :: "stored_text \<Rightarrow> json outcome" where
  "JSON_parse (JsonText v) =
     (case serialise v of Thrown x \<Rightarrow> Thrown SyntaxError | Returned j \<Rightarrow> Returned j)"
| "JSON_parse (OtherText s) = Thrown SyntaxError"

definition JSON_stringify :: "json \<Rightarrow> stored_text outcome" where
  "JSON_stringify v =
     (case serialise v of Thrown x \<Rightarrow> Thrown x | Returned j \<Rightarrow> Returned (JsonText v))"

text \<open>
  What the page and the browser supply to one call: whether each storage operation
  throws at that moment, the clock, the random source and the page's properties.
  \<open>Date_now36\<close> is \<^verbatim>\<open>Date.now().toString(36)\<close>, \<open>Math_random36\<close> is
  \<^verbatim>\<open>Math.random().toString(36)\<close>, \<open>Date_iso\<close> is \<^verbatim>\<open>new Date().toISOString()\<close>.
\<close>

record env =
  getItem_throws :: bool
  setItem_throws :: bool
  removeItem_throws :: bool
  Date_now36 :: string
  Math_random36 :: string
  Date_iso :: string
  pathname :: string
  title :: string
  referrer :: string
  screen_width :: int
  screen_height :: int
  userAgent :: string

record browser =
  localStorage :: "stored_text option"   \<comment> \<open>the value under \<^verbatim>\<open>STORAGE_KEY\<close>\<close>

definition getItem :: "env \<Rightarrow> 'a browser_scheme \<Rightarrow> stored_text option outcome" where
  "getItem e b = (if getItem_throws e then Thrown StorageError else Returned (localStorage b))"

definition setItem :: "env \<Rightarrow> stored_text \<Rightarrow> 'a browser_scheme \<Rightarrow> 'a browser_scheme outcome" where
  "setItem e t b =
     (if setItem_throws e then Thrown StorageError else Returned (b\<lparr>localStorage := Some t\<rparr>))"

definition removeItem :: "env \<Rightarrow> 'a browser_scheme \<Rightarrow> 'a browser_scheme outcome" where
  "removeItem e b =
     (if removeItem_throws e then Thrown StorageError else Returned (b\<lparr>localStorage := None\<rparr>))"

definition MAX_ENTRIES :: nat where
  "MAX_ENTRIES = 100"

section \<open>The batching logger (\<^verbatim>\<open>src/unnamed/part_002\<close>)\<close>

record config =
  apiEndpoint :: "string option"
  apiKey :: "string option"
  siteId :: "string option"
  trackPageViews :: bool
  batchInterval :: int
  maxBatchSize :: int
  debugMode :: bool

definition defaultConfig :: config where
  "defaultConfig =
     \<lparr>apiEndpoint = None, apiKey = None, siteId = None, trackPageViews = True,
      batchInterval = 30000, maxBatchSize = 20, debugMode = False\<rparr>"

text \<open>
  The logger object together with the storage slot it writes. \<open>entries\<close> is whatever
  \<open>loadFromStorage\<close> assigned, so it is a value, not necessarily an array.
  \<open>hooked\<close> says that \<^verbatim>\<open>window.onerror\<close>, \<^verbatim>\<open>window.onunhandledrejection\<close> and the
  \<^verbatim>\<open>beforeunload\<close> listener are installed, \<open>batchTimer\<close> that the interval timer runs.
  \<^verbatim>\<open>debug\<close> only writes to the console and is left out.
\<close>

record logger = browser +
  entries :: json
  pendingEntries :: "json list"
  batchTimer :: bool
  hooked :: bool

text \<open>The logger object as the script creates it, on a page whose storage slot holds \<open>s\<close>.\<close>

definition StaticLogger :: "stored_text option \<Rightarrow> logger" where
  "StaticLogger s =
     \<lparr>localStorage = s, entries = JArr [], pendingEntries = [], batchTimer = False,
      hooked = False\<rparr>"

definition loadFromStorage :: "env \<Rightarrow> logger \<Rightarrow> logger" where
  "loadFromStorage e st =
     (case getItem e st of
        Thrown x \<Rightarrow> st\<lparr>entries := JArr []\<rparr>
      | Returned stored \<Rightarrow>
          (if text_truthy stored then
             (case JSON_parse (the stored) of
                Thrown x \<Rightarrow> st\<lparr>entries := JArr []\<rparr>
              | Returned v \<Rightarrow> st\<lparr>entries := v\<rparr>)
           else st\<lparr>entries := JArr []\<rparr>))"

text \<open>
  Every caller of \<open>saveToStorage\<close> in the logger has just pushed onto \<open>entries\<close>, so
  \<open>entries\<close> is an array when it runs. On \<^verbatim>\<open>null\<close> the read of \<^verbatim>\<open>length\<close> throws
  inside the \<^verbatim>\<open>try\<close> and nothing changes; the other values that are not arrays reach
  the function only by a direct call and are given the same result. Both
  \<^verbatim>\<open>JSON.stringify\<close> and \<^verbatim>\<open>setItem\<close> run inside the \<^verbatim>\<open>try\<close>, after the cut.
\<close>

definition saveToStorage :: "env \<Rightarrow> logger \<Rightarrow> logger" where
  "saveToStorage e st =
     (case entries st of
        JArr xs \<Rightarrow>
          (let st1 = (if length xs > MAX_ENTRIES
                      then st\<lparr>entries := JArr (slice_last MAX_ENTRIES xs)\<rparr> else st)
           in case JSON_stringify (entries st1) of
                Thrown x \<Rightarrow> st1
              | Returned t \<Rightarrow>
                  (case setItem e t st1 of
                     Thrown x \<Rightarrow> st1
                   | Returned st2 \<Rightarrow> st2))
      | _ \<Rightarrow> st)"

definition generateId :: "env \<Rightarrow> string" where
  "generateId e = Date_now36 e @ substring 2 8 (Math_random36 e)"

subsection \<open>Capture\<close>

text \<open>
  The three object literals. \<open>message\<close> is a string; \<open>data\<close> is any value or
  \<^verbatim>\<open>undefined\<close>.
\<close>

definition pageview_entry :: "config \<Rightarrow> env \<Rightarrow> json" where
  "pageview_entry c e =
     JObj [(''id'', Some (JStr (generateId e))),
           (''type'', Some (JStr ''pageview'')),
           (''timestamp'', Some (JStr (Date_iso e))),
           (''siteId'', Some (opt_str (siteId c))),
           (''path'', Some (JStr (pathname e))),
           (''title'', Some (JStr (title e))),
           (''referrer'', Some (if referrer e = [] then JNull else JStr (referrer e))),
           (''screenWidth'', Some (JNum (screen_width e))),
           (''screenHeight'', Some (JNum (screen_height e)))]"

definition error_entry :: "config \<Rightarrow> env \<Rightarrow> string \<Rightarrow> json option \<Rightarrow> json" where
  "error_entry c e message data =
     JObj [(''id'', Some (JStr (generateId e))),
           (''type'', Some (JStr ''error'')),
           (''timestamp'', Some (JStr (Date_iso e))),
           (''siteId'', Some (opt_str (siteId c))),
           (''level'', Some (JStr ''ERROR'')),
           (''message'', Some (JStr message)),
           (''data'', Some (or_null data)),
           (''path'', Some (JStr (pathname e)))]"

definition log_entry :: "config \<Rightarrow> env \<Rightarrow> string \<Rightarrow> json option \<Rightarrow> json" where
  "log_entry c e message data =
     JObj [(''id'', Some (JStr (generateId e))),
           (''type'', Some (JStr ''log'')),
           (''timestamp'', Some (JStr (Date_iso e))),
           (''siteId'', Some (opt_str (siteId c))),
           (''level'', Some (JStr ''INFO'')),
           (''message'', Some (JStr message)),
           (''data'', Some (or_null data)),
           (''path'', Some (JStr (pathname e)))]"

text \<open>
  The common body of \<open>trackPageView\<close>, \<open>logError\<close> and \<open>log\<close>:
  \<^verbatim>\<open>this.entries.push(entry); this.pendingEntries.push(entry); this.saveToStorage();\<close>
  The first push throws when \<open>entries\<close> is not an array, before anything has changed.
\<close>

definition push_both :: "env \<Rightarrow> json \<Rightarrow> logger \<Rightarrow> unit outcome \<times> logger" where
  "push_both e entry st =
     (case js_push (entries st) entry of
        Thrown x \<Rightarrow> (Thrown x, st)
      | Returned es \<Rightarrow>
          (Returned (),
           saveToStorage e (st\<lparr>entries := es, pendingEntries := pendingEntries st @ [entry]\<rparr>)))"

definition trackPageView :: "config \<Rightarrow> env \<Rightarrow> logger \<Rightarrow> json option outcome \<times> logger" where
  "trackPageView c e st =
     (let entry = pageview_entry c e
      in case push_both e entry st of
           (Thrown x, st1) \<Rightarrow> (Thrown x, st1)
         | (Returned u, st1) \<Rightarrow> (Returned None, st1))"

definition logError ::
  "config \<Rightarrow> env \<Rightarrow> string \<Rightarrow> json option \<Rightarrow> logger \<Rightarrow> json option outcome \<times> logger" where
  "logError c e message data st =
     (let entry = error_entry c e message data
      in case push_both e entry st of
           (Thrown x, st1) \<Rightarrow> (Thrown x, st1)
         | (Returned u, st1) \<Rightarrow> (Returned (Some entry), st1))"

definition log ::
  "config \<Rightarrow> env \<Rightarrow> string \<Rightarrow> json option \<Rightarrow> logger \<Rightarrow> json option outcome \<times> logger" where
  "log c e message data st =
     (let entry = log_entry c e message data
      in case push_both e entry st of
           (Thrown x, st1) \<Rightarrow> (Thrown x, st1)
         | (Returned u, st1) \<Rightarrow> (Returned (Some entry), st1))"

text \<open>
  \<^verbatim>\<open>error && error.stack ? error.stack.substring(0, 500) : null\<close>: the argument
  \<open>stack\<close> is \<open>None\<close> when there is no error object or it has no stack.
\<close>

definition stack_field :: "string option \<Rightarrow> json" where
  "stack_field stack =
     (case stack of
        None \<Rightarrow> JNull
      | Some s \<Rightarrow> if s \<noteq> [] then JStr (substring 0 500 s) else JNull)"

definition handleError ::
  "config \<Rightarrow> env \<Rightarrow> string \<Rightarrow> string \<Rightarrow> int \<Rightarrow> int \<Rightarrow> string option \<Rightarrow> logger
     \<Rightarrow> json option outcome \<times> logger" where
  "handleError c e message source lineno colno stack st =
     (case logError c e (''JavaScript Error: '' @ message)
             (Some (JObj [(''source'', Some (JStr source)), (''line'', Some (JNum lineno)),
                          (''column'', Some (JNum colno)),
                         (''stack'', Some (stack_field stack))])) st of
        (Thrown x, st1) \<Rightarrow> (Thrown x, st1)
      | (Returned r, st1) \<Rightarrow> (Returned (Some (JBool False)), st1))"

text \<open>\<open>reason\<close> is \<^verbatim>\<open>String(event.reason)\<close>.\<close>

definition handlePromiseRejection ::
  "config \<Rightarrow> env \<Rightarrow> string \<Rightarrow> string option \<Rightarrow> logger \<Rightarrow> json option outcome \<times> logger" where
  "handlePromiseRejection c e reason stack st =
     (case logError c e ''Unhandled Promise Rejection''
             (Some (JObj [(''reason'', Some (JStr reason)), (''stack'', Some (stack_field stack))])) st of
        (Thrown x, st1) \<Rightarrow> (Thrown x, st1)
      | (Returned r, st1) \<Rightarrow> (Returned None, st1))"

subsection \<open>Sending\<close>

text \<open>\<^verbatim>\<open>config.apiEndpoint\<close> and \<^verbatim>\<open>config.apiKey\<close> as conditions: a non-empty string.\<close>

definition str_truthy :: "string option \<Rightarrow> bool" where
  "str_truthy x = (case x of None \<Rightarrow> False | Some s \<Rightarrow> s \<noteq> [])"

definition startBatchTimer :: "logger \<Rightarrow> logger" where
  "startBatchTimer st = st\<lparr>batchTimer := True\<rparr>"

record request =
  url :: string
  headers :: "(string \<times> string) list"
  body :: stored_text

text \<open>
  \<^verbatim>\<open>JSON.stringify(payload)\<close> is evaluated while the argument of \<^verbatim>\<open>fetch\<close> is built,
  before there is any promise and outside any \<^verbatim>\<open>try\<close>: when it throws, \<open>sendToApi\<close>
  throws.
\<close>

definition sendToApi :: "config \<Rightarrow> string \<Rightarrow> json \<Rightarrow> request outcome" where
  "sendToApi c endpoint payload =
     (case JSON_stringify payload of
        Thrown x \<Rightarrow> Thrown x
      | Returned t \<Rightarrow>
          Returned
            \<lparr>url = endpoint,
             headers = [(''Content-Type'', ''application/json'')] @
                       (if str_truthy (apiKey c) then [(''X-API-Key'', the (apiKey c))] else []),
             body = t\<rparr>)"

text \<open>
  What becomes of the request: \<^verbatim>\<open>fetch\<close> rejects, or the response's body is not JSON
  (\<^verbatim>\<open>response.json()\<close> rejects), or there is a status and a parsed body. The string is
  the error's message. \<open>sendToApi_result\<close> is the value of the promise that \<open>sendToApi\<close>
  returns: its \<^verbatim>\<open>catch\<close> turns both rejections into a value. The status is not read.
\<close>

datatype fetch_result =
    NetworkError string
  | BodyNotJson nat string
  | Body nat json

fun sendToApi_result :: "fetch_result \<Rightarrow> json" where
  "sendToApi_result (NetworkError m) =
     JObj [(''success'', Some (JBool False)), (''error'', Some (JStr m))]"
| "sendToApi_result (BodyNotJson status m) =
     JObj [(''success'', Some (JBool False)), (''error'', Some (JStr m))]"
| "sendToApi_result (Body status j) = j"

text \<open>
  \<open>sendPendingData\<close> returns at once: \<^verbatim>\<open>splice(0, maxBatchSize)\<close> has taken the
  batch off the queue and the request is under way. The result here is the request and the
  batch that the two callbacks hold (\<open>None\<close> when nothing was sent), with the logger.
  When \<open>sendToApi\<close> throws, the exception leaves \<open>sendPendingData\<close>; the batch is off the
  queue by then and no callback holds it.
\<close>

definition sendPendingData ::
  "config \<Rightarrow> logger \<Rightarrow> (request \<times> json list) option outcome \<times> logger" where
  "sendPendingData c st =
     (if \<not> str_truthy (apiEndpoint c) \<or> pendingEntries st = [] then (Returned None, st)
      else
        (let entriesToSend = take (nat (maxBatchSize c)) (pendingEntries st);
             st1 = st\<lparr>pendingEntries := drop (nat (maxBatchSize c)) (pendingEntries st)\<rparr>;
             payload = JObj [(''siteId'', Some (opt_str (siteId c))),
                             (''apiKey'', Some (opt_str (apiKey c))),
                             (''entries'', Some (JArr entriesToSend))]
         in case sendToApi c (the (apiEndpoint c)) payload of
              Thrown x \<Rightarrow> (Thrown x, st1)
            | Returned req \<Rightarrow> (Returned (Some (req, entriesToSend)), st1)))"

text \<open>
  The callbacks of \<open>sendPendingData\<close>, run when the promise of \<open>sendToApi\<close> settles, on
  the logger as it is by then. \<^verbatim>\<open>response.success\<close> on \<^verbatim>\<open>null\<close> throws inside
  \<^verbatim>\<open>then\<close>, which the \<^verbatim>\<open>catch\<close> callback answers with the same re-queue.
\<close>

definition requeue :: "json list \<Rightarrow> logger \<Rightarrow> logger" where
  "requeue entriesToSend st = st\<lparr>pendingEntries := entriesToSend @ pendingEntries st\<rparr>"

definition onSettled :: "fetch_result \<Rightarrow> json list \<Rightarrow> logger \<Rightarrow> logger" where
  "onSettled r entriesToSend st =
     (case js_get (sendToApi_result r) ''success'' of
        Thrown x \<Rightarrow> requeue entriesToSend st
      | Returned success \<Rightarrow>
          if \<not> truthy_opt success then requeue entriesToSend st else st)"

definition flush ::
  "config \<Rightarrow> logger \<Rightarrow> (request \<times> json list) option outcome \<times> logger" where
  "flush c st = sendPendingData c st"

subsection \<open>Reading, clearing, starting\<close>

text \<open>\<open>getEntries\<close> has no parameter: an argument of a call is ignored.\<close>

definition getEntries :: "logger \<Rightarrow> json" where
  "getEntries st = entries st"

text \<open>\<^verbatim>\<open>localStorage.removeItem\<close> stands outside any \<^verbatim>\<open>try\<close>.\<close>

definition clear :: "env \<Rightarrow> logger \<Rightarrow> json option outcome \<times> logger" where
  "clear e st =
     (let st1 = st\<lparr>entries := JArr [], pendingEntries := []\<rparr>
      in case removeItem e st1 of
           Thrown x \<Rightarrow> (Thrown x, st1)
         | Returned st2 \<Rightarrow> (Returned None, st2))"

definition init :: "config \<Rightarrow> env \<Rightarrow> logger \<Rightarrow> json option outcome \<times> logger" where
  "init c e st =
     (let st1 = loadFromStorage e st
      in case (if trackPageViews c then trackPageView c e st1 else (Returned None, st1)) of
           (Thrown x, st2) \<Rightarrow> (Thrown x, st2)
         | (Returned r, st2) \<Rightarrow>
             (let st3 = st2\<lparr>hooked := True\<rparr>
              in (Returned None, if str_truthy (apiEndpoint c) then startBatchTimer st3 else st3)))"

text \<open>
  \<open>exportLogs\<close> offers a file for download and leaves the logger alone; its result here
  is the name and the content of the file. \<^verbatim>\<open>JSON.stringify\<close> runs first, outside any
  \<^verbatim>\<open>try\<close>.
\<close>

definition exportLogs :: "env \<Rightarrow> logger \<Rightarrow> (string \<times> stored_text) outcome" where
  "exportLogs e st =
     (case JSON_stringify (entries st) of
        Thrown x \<Rightarrow> Thrown x
      | Returned t \<Rightarrow>
          Returned (''static-site-logs-'' @ takeWhile (\<lambda>ch. ch \<noteq> CHR ''T'') (Date_iso e) @
                    ''.json'', t))"

section \<open>The simple logger (\<^verbatim>\<open>src/js/static-logger.js\<close>)\<close>

text \<open>
  The simple logger has the same storage slot and cap, no queue and no endpoint. Its
  \<^verbatim>\<open>init\<close>, \<^verbatim>\<open>log\<close> and \<^verbatim>\<open>logError\<close> are written \<open>init'\<close>, \<open>log'\<close> and \<open>logError'\<close>
  here, the plain names being those of the batching logger.
\<close>

definition MAX_LOGS :: nat where
  "MAX_LOGS = 100"

record simple_logger = browser +
  logs :: json
  onerror_hooked :: bool

definition StaticLogger' :: "stored_text option \<Rightarrow> simple_logger" where
  "StaticLogger' s = \<lparr>localStorage = s, logs = JArr [], onerror_hooked = False\<rparr>"

definition loadLogs :: "env \<Rightarrow> simple_logger \<Rightarrow> simple_logger" where
  "loadLogs e st =
     (case getItem e st of
        Thrown x \<Rightarrow> st\<lparr>logs := JArr []\<rparr>
      | Returned stored \<Rightarrow>
          (if text_truthy stored then
             (case JSON_parse (the stored) of
                Thrown x \<Rightarrow> st\<lparr>logs := JArr []\<rparr>
              | Returned v \<Rightarrow> st\<lparr>logs := v\<rparr>)
           else st\<lparr>logs := JArr []\<rparr>))"

text \<open>As for \<open>saveToStorage\<close>, the only caller has just pushed onto \<open>logs\<close>.\<close>

definition saveLogs :: "env \<Rightarrow> simple_logger \<Rightarrow> simple_logger" where
  "saveLogs e st =
     (case logs st of
        JArr xs \<Rightarrow>
          (let st1 = (if length xs > MAX_LOGS
                      then st\<lparr>logs := JArr (slice_last MAX_LOGS xs)\<rparr> else st)
           in case JSON_stringify (logs st1) of
                Thrown x \<Rightarrow> st1
              | Returned t \<Rightarrow>
                  (case setItem e t st1 of
                     Thrown x \<Rightarrow> st1
                   | Returned st2 \<Rightarrow> st2))
      | _ \<Rightarrow> st)"

definition simple_entry :: "env \<Rightarrow> string \<Rightarrow> string \<Rightarrow> json option \<Rightarrow> json" where
  "simple_entry e level message data =
     JObj [(''timestamp'', Some (JStr (Date_iso e))),
           (''level'', Some (JStr level)),
           (''message'', Some (JStr message)),
           (''data'', Some (or_null data)),
           (''page'', Some (JStr (pathname e))),
           (''userAgent'', Some (JStr (substring 0 100 (userAgent e))))]"

text \<open>\<open>log'\<close> has no \<^verbatim>\<open>return\<close>: its result is \<^verbatim>\<open>undefined\<close>.\<close>

definition log' ::
  "env \<Rightarrow> string \<Rightarrow> string \<Rightarrow> json option \<Rightarrow> simple_logger
     \<Rightarrow> json option outcome \<times> simple_logger" where
  "log' e level message data st =
     (let entry = simple_entry e level message data
      in case js_push (logs st) entry of
           Thrown x \<Rightarrow> (Thrown x, st)
         | Returned ls \<Rightarrow> (Returned None, saveLogs e (st\<lparr>logs := ls\<rparr>)))"

definition info ::
  "env \<Rightarrow> string \<Rightarrow> json option \<Rightarrow> simple_logger \<Rightarrow> json option outcome \<times> simple_logger" where
  "info e message data st =
     (case log' e ''INFO'' message data st of
        (Thrown x, st1) \<Rightarrow> (Thrown x, st1)
      | (Returned r, st1) \<Rightarrow> (Returned None, st1))"

definition warn ::
  "env \<Rightarrow> string \<Rightarrow> json option \<Rightarrow> simple_logger \<Rightarrow> json option outcome \<times> simple_logger" where
  "warn e message data st =
     (case log' e ''WARN'' message data st of
        (Thrown x, st1) \<Rightarrow> (Thrown x, st1)
      | (Returned r, st1) \<Rightarrow> (Returned None, st1))"

definition error ::
  "env \<Rightarrow> string \<Rightarrow> json option \<Rightarrow> simple_logger \<Rightarrow> json option outcome \<times> simple_logger" where
  "error e message data st =
     (case log' e ''ERROR'' message data st of
        (Thrown x, st1) \<Rightarrow> (Thrown x, st1)
      | (Returned r, st1) \<Rightarrow> (Returned None, st1))"

definition logPageView :: "env \<Rightarrow> simple_logger \<Rightarrow> json option outcome \<times> simple_logger" where
  "logPageView e st =
     (case info e ''Page View''
             (Some (JObj [(''path'', Some (JStr (pathname e))),
                          (''referrer'',
                            Some (JStr (if referrer e = [] then ''direct'' else referrer e))),
                          (''screenWidth'', Some (JNum (screen_width e))),
                          (''screenHeight'', Some (JNum (screen_height e)))])) st of
        (Thrown x, st1) \<Rightarrow> (Thrown x, st1)
      | (Returned r, st1) \<Rightarrow> (Returned None, st1))"

text \<open>
  \<^verbatim>\<open>stack: error?.stack\<close>: without an error object or a stack (\<open>stack = None\<close>) the
  property holds \<^verbatim>\<open>undefined\<close>.
\<close>

definition logError' ::
  "env \<Rightarrow> string \<Rightarrow> string \<Rightarrow> int \<Rightarrow> int \<Rightarrow> string option \<Rightarrow> simple_logger
     \<Rightarrow> json option outcome \<times> simple_logger" where
  "logError' e message source lineno colno stack st =
     (case error e ''JavaScript Error''
             (Some (JObj [(''message'', Some (JStr message)), (''source'', Some (JStr source)),
                          (''line'', Some (JNum lineno)), (''column'', Some (JNum colno)),
                          (''stack'', map_option JStr stack)])) st of
        (Thrown x, st1) \<Rightarrow> (Thrown x, st1)
      | (Returned r, st1) \<Rightarrow> (Returned (Some (JBool False)), st1))"

definition init' :: "env \<Rightarrow> simple_logger \<Rightarrow> json option outcome \<times> simple_logger" where
  "init' e st =
     (case logPageView e (loadLogs e st) of
        (Thrown x, st1) \<Rightarrow> (Thrown x, st1)
      | (Returned r, st1) \<Rightarrow> (Returned None, st1\<lparr>onerror_hooked := True\<rparr>))"

text \<open>
  \<^verbatim>\<open>this.logs.filter(l => l.level === level)\<close> for a string \<open>level\<close>: the callback
  throws on an element that is \<^verbatim>\<open>null\<close>, and the whole call throws when \<open>logs\<close> is
  not an array.
\<close>

fun filter_level :: "string \<Rightarrow> json list \<Rightarrow> json list outcome" where
  "filter_level level [] = Returned []"
| "filter_level level (l # ls) =
     (case js_get l ''level'' of
        Thrown x \<Rightarrow> Thrown x
      | Returned v \<Rightarrow>
          (case filter_level level ls of
             Thrown x \<Rightarrow> Thrown x
           | Returned ys \<Rightarrow> Returned (if v = Some (JStr level) then l # ys else ys)))"

text \<open>The argument is a string or missing; \<^verbatim>\<open>if (level)\<close> fails on the empty string too.\<close>

definition getLogs :: "string option \<Rightarrow> simple_logger \<Rightarrow> json outcome" where
  "getLogs level st =
     (if str_truthy level then
        (case logs st of
           JArr ls \<Rightarrow>
             (case filter_level (the level) ls of
                Thrown x \<Rightarrow> Thrown x
              | Returned ys \<Rightarrow> Returned (JArr ys))
         | _ \<Rightarrow> Thrown TypeError)
      else Returned (logs st))"

definition clearLogs :: "env \<Rightarrow> simple_logger \<Rightarrow> json option outcome \<times> simple_logger" where
  "clearLogs e st =
     (let st1 = st\<lparr>logs := JArr []\<rparr>
      in case removeItem e st1 of
           Thrown x \<Rightarrow> (Thrown x, st1)
         | Returned st2 \<Rightarrow> (Returned None, st2))"

section \<open>Sequences of calls and events\<close>

text \<open>
  The capture calls of the batching logger, each made with what the page supplies at
  that moment, and the entry that a call builds.
\<close>

datatype call =
    TrackPageView
  | Log string "json option"
  | LogError string "json option"
  | HandleError string string int int "string option"
  | HandlePromiseRejection string "string option"

fun capture :: "config \<Rightarrow> env \<Rightarrow> call \<Rightarrow> logger \<Rightarrow> json option outcome \<times> logger" where
  "capture c e TrackPageView st = trackPageView c e st"
| "capture c e (Log message data) st = log c e message data st"
| "capture c e (LogError message data) st = logError c e message data st"
| "capture c e (HandleError message source lineno colno stack) st =
     handleError c e message source lineno colno stack st"
| "capture c e (HandlePromiseRejection reason stack) st =
     handlePromiseRejection c e reason stack st"

fun new_entry :: "config \<Rightarrow> env \<Rightarrow> call \<Rightarrow> json" where
  "new_entry c e TrackPageView = pageview_entry c e"
| "new_entry c e (Log message data) = log_entry c e message data"
| "new_entry c e (LogError message data) = error_entry c e message data"
| "new_entry c e (HandleError message source lineno colno stack) =
     error_entry c e (''JavaScript Error: '' @ message)
       (Some (JObj [(''source'', Some (JStr source)), (''line'', Some (JNum lineno)),
                    (''column'', Some (JNum colno)),
                   (''stack'', Some (stack_field stack))]))"
| "new_entry c e (HandlePromiseRejection reason stack) =
     error_entry c e ''Unhandled Promise Rejection''
       (Some (JObj [(''reason'', Some (JStr reason)), (''stack'', Some (stack_field stack))]))"

fun run_calls :: "config \<Rightarrow> (env \<times> call) list \<Rightarrow> logger \<Rightarrow> logger" where
  "run_calls c [] st = st"
| "run_calls c ((e, k) # ks) st = run_calls c ks (snd (capture c e k st))"

text \<open>The same for the simple logger.\<close>

datatype call' =
    Log' string string "json option"
  | Info string "json option"
  | Warn string "json option"
  | Error string "json option"

fun capture' :: "env \<Rightarrow> call' \<Rightarrow> simple_logger \<Rightarrow> json option outcome \<times> simple_logger" where
  "capture' e (Log' level message data) st = log' e level message data st"
| "capture' e (Info message data) st = info e message data st"
| "capture' e (Warn message data) st = warn e message data st"
| "capture' e (Error message data) st = error e message data st"

fun new_entry' :: "env \<Rightarrow> call' \<Rightarrow> json" where
  "new_entry' e (Log' level message data) = simple_entry e level message data"
| "new_entry' e (Info message data) = simple_entry e ''INFO'' message data"
| "new_entry' e (Warn message data) = simple_entry e ''WARN'' message data"
| "new_entry' e (Error message data) = simple_entry e ''ERROR'' message data"

fun run_calls' :: "(env \<times> call') list \<Rightarrow> simple_logger \<Rightarrow> simple_logger" where
  "run_calls' [] st = st"
| "run_calls' ((e, k) # ks) st = run_calls' ks (snd (capture' e k st))"

text \<open>
  A page load of the batching logger, as the browser runs it: one event at a time, each
  to completion. Besides the logger, the page has the batches whose requests have not
  settled yet (each held by the callbacks of its \<open>sendPendingData\<close>) and the requests
  handed to \<^verbatim>\<open>fetch\<close> so far. The events are the calls of the methods that touch the
  logger (\<open>Flush\<close> is \<open>flush\<close>, also when the timer or the \<^verbatim>\<open>beforeunload\<close> listener
  calls it) and the settling of a request: \<open>Settled i r\<close> is the settling of the \<open>i\<close>-th
  open request with result \<open>r\<close>.
\<close>

datatype event =
    Init env
  | Load env
  | Save env
  | StartTimer
  | Capture env call
  | Flush
  | Settled nat fetch_result
  | GetEntries
  | Clear env
  | Export env

record page =
  lg :: logger
  inflight :: "json list list"
  sent :: "request list"

fun step :: "config \<Rightarrow> event \<Rightarrow> page \<Rightarrow> page" where
  "step c (Init e) p = p\<lparr>lg := snd (init c e (lg p))\<rparr>"
| "step c (Load e) p = p\<lparr>lg := loadFromStorage e (lg p)\<rparr>"
| "step c (Save e) p = p\<lparr>lg := saveToStorage e (lg p)\<rparr>"
| "step c StartTimer p = p\<lparr>lg := startBatchTimer (lg p)\<rparr>"
| "step c (Capture e k) p = p\<lparr>lg := snd (capture c e k (lg p))\<rparr>"
| "step c Flush p =
     (case flush c (lg p) of
        (Thrown x, st) \<Rightarrow> p\<lparr>lg := st\<rparr>
      | (Returned None, st) \<Rightarrow> p\<lparr>lg := st\<rparr>
      | (Returned (Some (req, batch)), st) \<Rightarrow>
          p\<lparr>lg := st, inflight := inflight p @ [batch], sent := sent p @ [req]\<rparr>)"
| "step c (Settled i r) p =
     (if i < length (inflight p)
      then p\<lparr>lg := onSettled r (inflight p ! i) (lg p),
             inflight := take i (inflight p) @ drop (Suc i) (inflight p)\<rparr>
      else p)"
| "step c GetEntries p = p"
| "step c (Clear e) p = p\<lparr>lg := snd (clear e (lg p))\<rparr>"
| "step c (Export e) p = p"

fun run :: "config \<Rightarrow> event list \<Rightarrow> page \<Rightarrow> page" where
  "run c [] p = p"
| "run c (ev # evs) p = run c evs (step c ev p)"

text \<open>The entries that an event creates: \<open>init\<close> creates the page view.\<close>

fun created :: "config \<Rightarrow> event \<Rightarrow> json list" where
  "created c (Capture e k) = [new_entry c e k]"
| "created c (Init e) = (if trackPageViews c then [pageview_entry c e] else [])"
| "created c ev = []"

definition array_length :: "json \<Rightarrow> nat option" where
  "array_length v = (case v of JArr xs \<Rightarrow> Some (length xs) | _ \<Rightarrow> None)"

subsection \<open>Sample values\<close>

definition sample_env :: env where
  "sample_env =
     \<lparr>getItem_throws = False, setItem_throws = False, removeItem_throws = False,
      Date_now36 = ''lq1x2k3c'', Math_random36 = ''0.4fzyo82mvyr'',
      Date_iso = ''2024-01-15T10:30:00.000Z'', pathname = ''/index.html'',
      title = ''Home'', referrer = '''', screen_width = 1920, screen_height = 1080,
      userAgent = ''Mozilla/5.0''\<rparr>"

definition remote_config :: config where
  "remote_config = defaultConfig\<lparr>apiEndpoint := Some ''https://example.org/collect''\<rparr>"

definition info_entry :: "string \<Rightarrow> json" where
  "info_entry m = log_entry defaultConfig sample_env m None"

definition sample_page :: page where
  "sample_page =
     \<lparr>lg = (StaticLogger None)\<lparr>entries := JArr [info_entry ''a''],
                                pendingEntries := [info_entry ''a'']\<rparr>,
      inflight = [], sent = []\<rparr>"

text \<open>The entry of the page view that \<open>logPageView\<close> passes through \<open>info\<close> to \<open>log'\<close>.\<close>

definition pageview_entry' :: "env \<Rightarrow> json" where
  "pageview_entry' e =
     simple_entry e ''INFO'' ''Page View''
       (Some (JObj [(''path'', Some (JStr (pathname e))),
                    (''referrer'',
                      Some (JStr (if referrer e = [] then ''direct'' else referrer e))),
                    (''screenWidth'', Some (JNum (screen_width e))),
                    (''screenHeight'', Some (JNum (screen_height e)))]))"

text \<open>What a capture call of the batching logger returns when it does not throw.\<close>

fun returned :: "config \<Rightarrow> env \<Rightarrow> call \<Rightarrow> json option" where
  "returned c e TrackPageView = None"
| "returned c e (Log message data) = Some (log_entry c e message data)"
| "returned c e (LogError message data) = Some (error_entry c e message data)"
| "returned c e (HandleError message source lineno colno stack) = Some (JBool False)"
| "returned c e (HandlePromiseRejection reason stack) = None"

subsection \<open>Notions of the specification and of the statements\<close>

text \<open>
  The subset of a log whose \<^verbatim>\<open>level\<close> field equals the filter, in the original order.
\<close>

definition level_subset :: "string \<Rightarrow> json list \<Rightarrow> json list" where
  "level_subset level ls = filter (\<lambda>l. js_get l ''level'' = Returned (Some (JStr level))) ls"

text \<open>
  A failed batch in the words of the specification: a network failure, a status that is
  not 2xx, a response that does not parse, or a body without a true \<^verbatim>\<open>success\<close>.
\<close>

fun spec_failed :: "fetch_result \<Rightarrow> bool" where
  "spec_failed (NetworkError m) = True"
| "spec_failed (BodyNotJson status m) = True"
| "spec_failed (Body status j) =
     (status < 200 \<or> 299 < status \<or>
      (case js_get j ''success'' of Returned (Some v) \<Rightarrow> \<not> truthy v | _ \<Rightarrow> True))"

text \<open>
  What the callbacks of \<open>sendPendingData\<close> go by: the truth value of
  \<^verbatim>\<open>response.success\<close> on the value of the promise, false also when that read throws.
\<close>

definition success_flag :: "fetch_result \<Rightarrow> bool" where
  "success_flag r =
     (case js_get (sendToApi_result r) ''success'' of
        Thrown x \<Rightarrow> False
      | Returned success \<Rightarrow> truthy_opt success)"

text \<open>
  The values that \<^verbatim>\<open>JSON.stringify\<close> keeps as they are: \<^verbatim>\<open>null\<close>, booleans, finite
  numbers, strings, and arrays and objects of such values with no property that holds
  \<^verbatim>\<open>undefined\<close>.
\<close>

primrec plain :: "json \<Rightarrow> bool" where
  "plain JNull = True"
| "plain (JBool b) = True"
| "plain (JNum n) = True"
| "plain (JStr s) = True"
| "plain (JArr xs) = list_all (\<lambda>b. b) (map plain xs)"
| "plain (JObj kvs) =
     list_all (\<lambda>p. snd p = Some True) (map (map_prod (\<lambda>k. k) (map_option plain)) kvs)"
| "plain JNaN = False"
| "plain JInfinity = False"
| "plain (JDate s) = False"
| "plain (JCyclic kvs) = False"

text \<open>
  The entries that a request carries: the \<^verbatim>\<open>entries\<close> array of the payload that its
  body is the JSON text of.
\<close>

fun body_entries :: "stored_text \<Rightarrow> json list" where
  "body_entries (JsonText (JObj kvs)) =
     (case map_of kvs ''entries'' of Some (Some (JArr b)) \<Rightarrow> b | _ \<Rightarrow> [])"
| "body_entries t = []"

section \<open>Properties of loading and saving\<close>

lemma length_slice_last: "length (slice_last n xs) = min n (length xs)"
  by (simp add: slice_last_def)

lemma slice_last_id: "length xs \<le> n \<Longrightarrow> slice_last n xs = xs"
  by (simp add: slice_last_def)

lemma slice_last_snoc:
  "0 < n \<Longrightarrow> slice_last n (slice_last n xs @ [x]) = slice_last n (xs @ [x])"
proof -
  assume n: "0 < n"
  have "Suc (length xs) - (length xs - n + n) + (length xs - n) = Suc (length xs) - n"
    using n by arith
  then show ?thesis
    using n by (simp add: slice_last_def)
qed

lemma entries_saveToStorage:
  "entries st = JArr xs \<Longrightarrow> entries (saveToStorage e st) = JArr (slice_last MAX_ENTRIES xs)"
  by (simp add: saveToStorage_def setItem_def Let_def slice_last_id split: outcome.splits)

lemma pending_saveToStorage: "pendingEntries (saveToStorage e st) = pendingEntries st"
  by (simp add: saveToStorage_def setItem_def Let_def split: json.splits outcome.splits)

lemma storage_saveToStorage:
  "entries st = JArr xs \<Longrightarrow>
   localStorage (saveToStorage e st) =
     (case JSON_stringify (JArr (slice_last MAX_ENTRIES xs)) of
        Thrown x \<Rightarrow> localStorage st
      | Returned t \<Rightarrow> if setItem_throws e then localStorage st else Some t)"
  by (simp add: saveToStorage_def setItem_def Let_def slice_last_id split: outcome.splits)

lemma entries_saveLogs:
  "logs st = JArr xs \<Longrightarrow> logs (saveLogs e st) = JArr (slice_last MAX_LOGS xs)"
  by (simp add: saveLogs_def setItem_def Let_def slice_last_id split: outcome.splits)

lemma storage_saveLogs:
  "logs st = JArr xs \<Longrightarrow>
   localStorage (saveLogs e st) =
     (case JSON_stringify (JArr (slice_last MAX_LOGS xs)) of
        Thrown x \<Rightarrow> localStorage st
      | Returned t \<Rightarrow> if setItem_throws e then localStorage st else Some t)"
  by (simp add: saveLogs_def setItem_def Let_def slice_last_id split: outcome.splits)

lemma entries_loadFromStorage:
  "entries (loadFromStorage e st) =
     (if getItem_throws e then JArr []
      else case localStorage st of
             Some (JsonText v) \<Rightarrow> (case serialise v of Thrown x \<Rightarrow> JArr [] | Returned j \<Rightarrow> j)
           | _ \<Rightarrow> JArr [])"
  by (simp add: loadFromStorage_def getItem_def
        split: option.splits stored_text.splits outcome.splits)

lemma logs_loadLogs:
  "logs (loadLogs e st) =
     (if getItem_throws e then JArr []
      else case localStorage st of
             Some (JsonText v) \<Rightarrow> (case serialise v of Thrown x \<Rightarrow> JArr [] | Returned j \<Rightarrow> j)
           | _ \<Rightarrow> JArr [])"
  by (simp add: loadLogs_def getItem_def split: option.splits stored_text.splits outcome.splits)

subsection \<open>Values that \<^verbatim>\<open>JSON.stringify\<close> keeps\<close>

lemma collect_same:
  "(\<And>x. x \<in> set xs \<Longrightarrow> f x = Returned x) \<Longrightarrow> collect (map f xs) = Returned xs"
  by (induction xs) auto

lemma collect_props_same:
  "(\<And>k v. (k, v) \<in> set kvs \<Longrightarrow> \<exists>j. v = Some j \<and> f j = Returned j) \<Longrightarrow>
   collect_props (map (map_prod (\<lambda>k. k) (map_option f)) kvs) = Returned kvs"
proof (induction kvs)
  case Nil
  then show ?case by simp
next
  case (Cons p kvs)
  obtain k v where p: "p = (k, v)" by (cases p)
  from Cons.prems [of k v] p obtain j where j: "v = Some j" "f j = Returned j"
    by auto
  have "collect_props (map (map_prod (\<lambda>k. k) (map_option f)) kvs) = Returned kvs"
    using Cons.prems by (intro Cons.IH) auto
  then show ?case
    by (simp add: p j)
qed

lemma serialise_plain: "plain v \<Longrightarrow> serialise v = Returned v"
proof (induction v)
  case (JArr xs)
  have "collect (map serialise xs) = Returned xs"
    using JArr by (intro collect_same) (auto simp: list_all_iff)
  then show ?case by simp
next
  case (JObj kvs)
  have "collect_props (map (map_prod (\<lambda>k. k) (map_option serialise)) kvs) = Returned kvs"
  proof (rule collect_props_same)
    fix k v
    assume kv: "(k, v) \<in> set kvs"
    with JObj.prems have "map_option plain v = Some True"
      by (force simp: list_all_iff)
    then obtain j where j: "v = Some j" "plain j"
      by (cases v) auto
    with kv JObj.IH [of "(k, v)" v j] show "\<exists>j. v = Some j \<and> serialise j = Returned j"
      by auto
  qed
  then show ?case by simp
qed simp_all

lemma plain_opt_str: "plain (opt_str x)"
  by (simp add: opt_str_def split: option.splits)

lemma plain_log_entry: "plain (or_null d) \<Longrightarrow> plain (log_entry c e m d)"
  by (simp add: log_entry_def plain_opt_str)

lemma plain_info_entry: "plain (info_entry m)"
  by (simp add: info_entry_def plain_log_entry or_null_def)

text \<open>
  Both \<open>loadFromStorage\<close> and \<open>loadLogs\<close> are total: every exception of the read and
  of \<^verbatim>\<open>JSON.parse\<close> ends in their \<^verbatim>\<open>catch\<close>. A stored string that is not JSON is
  discarded and the durable log starts empty. A stored JSON text is taken as the durable
  log whatever value it denotes (unless the read throws).
\<close>

lemma load_discards_malformed:
  "entries (loadFromStorage e (st\<lparr>localStorage := Some (OtherText s)\<rparr>)) = JArr [] \<and>
   logs (loadLogs e (st'\<lparr>localStorage := Some (OtherText s)\<rparr>)) = JArr [] \<and>
   (plain v \<longrightarrow>
      entries (loadFromStorage e (st\<lparr>localStorage := Some (JsonText v)\<rparr>)) =
        (if getItem_throws e then JArr [] else v) \<and>
      logs (loadLogs e (st'\<lparr>localStorage := Some (JsonText v)\<rparr>)) =
        (if getItem_throws e then JArr [] else v))"
  by (simp add: entries_loadFromStorage logs_loadLogs serialise_plain)

text \<open>
  \<^bold>\<open>C6\<close> does not hold of the code for a stored value that is valid JSON and not an
  array. With the JSON text \<^verbatim>\<open>{}\<close> in the slot, the durable log after loading is that
  object, not the empty log, and \<open>init\<close> with the default configuration throws a
  \<^verbatim>\<open>TypeError\<close> at the push of the page view.
\<close>

theorem load_keeps_non_array:
  "entries (loadFromStorage sample_env (StaticLogger (Some (JsonText (JObj []))))) \<noteq> JArr [] \<and>
   fst (init defaultConfig sample_env (StaticLogger (Some (JsonText (JObj []))))) =
     Thrown TypeError"
  by (simp add: entries_loadFromStorage sample_env_def StaticLogger_def init_def
        defaultConfig_def trackPageView_def push_both_def Let_def)

text \<open>
  \<^bold>\<open>C8\<close>, as amended. Take a durable log of at most 100 entries, a save whose write
  does not throw and, on the next page load, a load into a new logger object whose read
  does not throw. If \<^verbatim>\<open>JSON.stringify\<close> accepts the log, the loaded durable log is the
  value that the written text denotes (\<open>serialise\<close> of the log). If every value in the
  log is one that \<^verbatim>\<open>JSON.stringify\<close> keeps (\<open>plain\<close>), it is the log itself: the same
  entries in the same order, field for field. The same holds for \<open>saveLogs\<close> and
  \<open>loadLogs\<close>.
\<close>

theorem save_load_roundtrip:
  "(length xs \<le> MAX_ENTRIES \<and> entries st = JArr xs \<and> \<not> setItem_throws e \<and>
      \<not> getItem_throws e' \<longrightarrow>
    (serialise (JArr xs) = Returned j \<longrightarrow>
       entries (loadFromStorage e' (StaticLogger (localStorage (saveToStorage e st)))) = j) \<and>
    (plain (JArr xs) \<longrightarrow>
       entries (loadFromStorage e' (StaticLogger (localStorage (saveToStorage e st)))) =
         JArr xs)) \<and>
   (length xs \<le> MAX_LOGS \<and> logs st' = JArr xs \<and> \<not> setItem_throws e \<and>
      \<not> getItem_throws e' \<longrightarrow>
    (serialise (JArr xs) = Returned j \<longrightarrow>
       logs (loadLogs e' (StaticLogger' (localStorage (saveLogs e st')))) = j) \<and>
    (plain (JArr xs) \<longrightarrow>
       logs (loadLogs e' (StaticLogger' (localStorage (saveLogs e st')))) = JArr xs))"
proof -
  have a: "entries (loadFromStorage e' (StaticLogger (localStorage (saveToStorage e st)))) = j"
    if "length xs \<le> MAX_ENTRIES" "entries st = JArr xs" "\<not> setItem_throws e"
      "\<not> getItem_throws e'" "serialise (JArr xs) = Returned j" for j
    using that
    by (simp add: entries_loadFromStorage storage_saveToStorage slice_last_id StaticLogger_def
          JSON_stringify_def del: serialise.simps)
  have b: "logs (loadLogs e' (StaticLogger' (localStorage (saveLogs e st')))) = j"
    if "length xs \<le> MAX_LOGS" "logs st' = JArr xs" "\<not> setItem_throws e"
      "\<not> getItem_throws e'" "serialise (JArr xs) = Returned j" for j
    using that
    by (simp add: logs_loadLogs storage_saveLogs slice_last_id StaticLogger'_def
          JSON_stringify_def del: serialise.simps)
  show ?thesis
    using a [of j] b [of j] a [of "JArr xs"] b [of "JArr xs"] serialise_plain [of "JArr xs"]
    by blast
qed

theorem save_load_roundtrip_witness:
  "length [info_entry ''a'', info_entry ''b''] \<le> MAX_ENTRIES \<and>
   \<not> setItem_throws sample_env \<and> \<not> getItem_throws sample_env \<and>
   plain (JArr [info_entry ''a'', info_entry ''b'']) \<and>
   serialise (JArr [info_entry ''a'', info_entry ''b'']) =
     Returned (JArr [info_entry ''a'', info_entry ''b'']) \<and>
   entries (loadFromStorage sample_env (StaticLogger (localStorage (saveToStorage sample_env
      ((StaticLogger None)\<lparr>entries := JArr [info_entry ''a'', info_entry ''b'']\<rparr>))))) =
     JArr [info_entry ''a'', info_entry ''b''] \<and>
   logs (loadLogs sample_env (StaticLogger' (localStorage (saveLogs sample_env
      ((StaticLogger' None)\<lparr>logs := JArr [info_entry ''a'', info_entry ''b'']\<rparr>))))) =
     JArr [info_entry ''a'', info_entry ''b'']"
proof -
  have p: "plain (JArr [info_entry ''a'', info_entry ''b''])"
    by (simp add: plain_info_entry)
  then have s: "serialise (JArr [info_entry ''a'', info_entry ''b'']) =
      Returned (JArr [info_entry ''a'', info_entry ''b''])"
    by (rule serialise_plain)
  have h: "length [info_entry ''a'', info_entry ''b''] \<le> MAX_ENTRIES"
    "length [info_entry ''a'', info_entry ''b''] \<le> MAX_LOGS"
    "\<not> setItem_throws sample_env" "\<not> getItem_throws sample_env"
    by (simp_all add: MAX_ENTRIES_def MAX_LOGS_def sample_env_def)
  from save_load_roundtrip [of "[info_entry ''a'', info_entry ''b'']"
      "(StaticLogger None)\<lparr>entries := JArr [info_entry ''a'', info_entry ''b'']\<rparr>"
      sample_env sample_env "JArr [info_entry ''a'', info_entry ''b'']"
      "(StaticLogger' None)\<lparr>logs := JArr [info_entry ''a'', info_entry ''b'']\<rparr>"] h p s
  show ?thesis
    by simp
qed

text \<open>
  \<^bold>\<open>C8\<close> as stated fails on values that \<^verbatim>\<open>JSON.stringify\<close> does not keep. The call
  \<^verbatim>\<open>log('m', Infinity)\<close> makes an entry whose \<^verbatim>\<open>data\<close> is \<^verbatim>\<open>Infinity\<close>; saved and
  loaded again, the entry has \<^verbatim>\<open>data: null\<close>. The entry that \<open>logError'\<close> of the simple
  logger makes without an error object has a \<^verbatim>\<open>stack\<close> property holding
  \<^verbatim>\<open>undefined\<close>; saved and loaded again, the property is gone.
\<close>

theorem save_load_changes_values:
  "entries (snd (log defaultConfig sample_env ''m'' (Some JInfinity) (StaticLogger None))) =
     JArr [log_entry defaultConfig sample_env ''m'' (Some JInfinity)] \<and>
   entries (loadFromStorage sample_env (StaticLogger (localStorage (saveToStorage sample_env
      ((StaticLogger None)\<lparr>entries :=
          JArr [log_entry defaultConfig sample_env ''m'' (Some JInfinity)]\<rparr>))))) =
     JArr [log_entry defaultConfig sample_env ''m'' (Some JNull)] \<and>
   log_entry defaultConfig sample_env ''m'' (Some JNull) \<noteq>
     log_entry defaultConfig sample_env ''m'' (Some JInfinity) \<and>
   logs (snd (logError' sample_env ''boom'' ''app.js'' 1 2 None (StaticLogger' None))) =
     JArr [simple_entry sample_env ''ERROR'' ''JavaScript Error''
             (Some (JObj [(''message'', Some (JStr ''boom'')), (''source'', Some (JStr ''app.js'')),
                          (''line'', Some (JNum 1)), (''column'', Some (JNum 2)),
                          (''stack'', None)]))] \<and>
   logs (loadLogs sample_env (StaticLogger' (localStorage (saveLogs sample_env
      ((StaticLogger' None)\<lparr>logs :=
          JArr [simple_entry sample_env ''ERROR'' ''JavaScript Error''
             (Some (JObj [(''message'', Some (JStr ''boom'')), (''source'', Some (JStr ''app.js'')),
                          (''line'', Some (JNum 1)), (''column'', Some (JNum 2)),
                          (''stack'', None)]))]\<rparr>))))) =
     JArr [simple_entry sample_env ''ERROR'' ''JavaScript Error''
             (Some (JObj [(''message'', Some (JStr ''boom'')), (''source'', Some (JStr ''app.js'')),
                          (''line'', Some (JNum 1)), (''column'', Some (JNum 2))]))] \<and>
   simple_entry sample_env ''ERROR'' ''JavaScript Error''
     (Some (JObj [(''message'', Some (JStr ''boom'')), (''source'', Some (JStr ''app.js'')),
                  (''line'', Some (JNum 1)), (''column'', Some (JNum 2))])) \<noteq>
   simple_entry sample_env ''ERROR'' ''JavaScript Error''
     (Some (JObj [(''message'', Some (JStr ''boom'')), (''source'', Some (JStr ''app.js'')),
                  (''line'', Some (JNum 1)), (''column'', Some (JNum 2)), (''stack'', None)]))"
  by (simp add: log_def logError'_def error_def log'_def push_both_def StaticLogger_def
        StaticLogger'_def entries_saveToStorage entries_saveLogs entries_loadFromStorage
        logs_loadLogs storage_saveToStorage storage_saveLogs JSON_stringify_def slice_last_def
        MAX_ENTRIES_def MAX_LOGS_def log_entry_def simple_entry_def or_null_def opt_str_def
        defaultConfig_def sample_env_def Let_def)

section \<open>Capture calls\<close>

lemma push_both_array:
  "entries st = JArr xs \<Longrightarrow>
   push_both e entry st =
     (Returned (),
      saveToStorage e (st\<lparr>entries := JArr (xs @ [entry]),
                           pendingEntries := pendingEntries st @ [entry]\<rparr>))"
  by (simp add: push_both_def)

lemma push_both_not_array:
  "\<forall>xs. entries st \<noteq> JArr xs \<Longrightarrow> push_both e entry st = (Thrown TypeError, st)"
  by (cases "entries st") (simp_all add: push_both_def)

lemma capture_push_both:
  "capture c e k st =
     (case push_both e (new_entry c e k) st of
        (Thrown x, st1) \<Rightarrow> (Thrown x, st1)
      | (Returned u, st1) \<Rightarrow> (Returned (returned c e k), st1))"
  by (cases k)
     (simp_all add: trackPageView_def log_def logError_def handleError_def
        handlePromiseRejection_def Let_def split: prod.splits outcome.splits)

lemma capture_array:
  "entries st = JArr xs \<Longrightarrow>
   capture c e k st =
     (Returned (returned c e k),
      saveToStorage e (st\<lparr>entries := JArr (xs @ [new_entry c e k]),
                           pendingEntries := pendingEntries st @ [new_entry c e k]\<rparr>))"
  by (simp add: capture_push_both push_both_array)

lemma capture_not_array:
  "\<forall>xs. entries st \<noteq> JArr xs \<Longrightarrow> capture c e k st = (Thrown TypeError, st)"
  by (simp add: capture_push_both push_both_not_array)

lemma entries_capture:
  "entries st = JArr xs \<Longrightarrow>
   entries (snd (capture c e k st)) = JArr (slice_last MAX_ENTRIES (xs @ [new_entry c e k]))"
  by (simp add: capture_array entries_saveToStorage)

lemma pending_capture:
  "entries st = JArr xs \<Longrightarrow>
   pendingEntries (snd (capture c e k st)) = pendingEntries st @ [new_entry c e k]"
  by (simp add: capture_array pending_saveToStorage)

lemma storage_capture:
  "entries st = JArr xs \<Longrightarrow>
   localStorage (snd (capture c e k st)) =
     (case JSON_stringify (JArr (slice_last MAX_ENTRIES (xs @ [new_entry c e k]))) of
        Thrown x \<Rightarrow> localStorage st
      | Returned t \<Rightarrow> if setItem_throws e then localStorage st else Some t)"
  by (simp add: capture_array storage_saveToStorage split: outcome.splits)

lemma capture'_log':
  "capture' e k st =
     (case js_push (logs st) (new_entry' e k) of
        Thrown x \<Rightarrow> (Thrown x, st)
      | Returned ls \<Rightarrow> (Returned None, saveLogs e (st\<lparr>logs := ls\<rparr>)))"
  by (cases k)
     (simp_all add: log'_def info_def warn_def error_def Let_def split: outcome.splits)

lemma capture'_array:
  "logs st = JArr xs \<Longrightarrow>
   capture' e k st = (Returned None, saveLogs e (st\<lparr>logs := JArr (xs @ [new_entry' e k])\<rparr>))"
  by (simp add: capture'_log')

lemma capture'_not_array:
  "\<forall>xs. logs st \<noteq> JArr xs \<Longrightarrow> capture' e k st = (Thrown TypeError, st)"
  by (cases "logs st") (simp_all add: capture'_log')

lemma logs_capture':
  "logs st = JArr xs \<Longrightarrow>
   logs (snd (capture' e k st)) = JArr (slice_last MAX_LOGS (xs @ [new_entry' e k]))"
  by (simp add: capture'_array entries_saveLogs)

text \<open>
  \<^bold>\<open>C10\<close>. A capture call that returns leaves a durable log that is an array of at most
  100 entries, whatever the storage does during the call: the cut to the last 100 is made
  on the array in memory before \<^verbatim>\<open>setItem\<close> is called. This holds for the five capture
  calls of the batching logger and the four of the simple logger. (A call that does not
  return has thrown at its first push, the log not being an array.)
\<close>

theorem capture_bounded:
  "(fst (capture c e k st) = Returned r \<longrightarrow>
      (\<exists>ys. entries (snd (capture c e k st)) = JArr ys \<and> length ys \<le> MAX_ENTRIES)) \<and>
   (fst (capture' e k' st') = Returned r' \<longrightarrow>
      (\<exists>ys. logs (snd (capture' e k' st')) = JArr ys \<and> length ys \<le> MAX_LOGS))"
proof (intro conjI impI)
  assume ret: "fst (capture c e k st) = Returned r"
  show "\<exists>ys. entries (snd (capture c e k st)) = JArr ys \<and> length ys \<le> MAX_ENTRIES"
  proof (cases "\<exists>xs. entries st = JArr xs")
    case True
    then obtain xs where "entries st = JArr xs" ..
    then show ?thesis
      by (simp add: entries_capture length_slice_last)
  next
    case False
    then have "capture c e k st = (Thrown TypeError, st)"
      by (simp add: capture_not_array)
    with ret show ?thesis by simp
  qed
next
  assume ret: "fst (capture' e k' st') = Returned r'"
  show "\<exists>ys. logs (snd (capture' e k' st')) = JArr ys \<and> length ys \<le> MAX_LOGS"
  proof (cases "\<exists>xs. logs st' = JArr xs")
    case True
    then obtain xs where "logs st' = JArr xs" ..
    then show ?thesis
      by (simp add: logs_capture' length_slice_last)
  next
    case False
    then have "capture' e k' st' = (Thrown TypeError, st')"
      by (simp add: capture'_not_array)
    with ret show ?thesis by simp
  qed
qed

theorem capture_bounded_witness:
  "fst (capture defaultConfig (sample_env\<lparr>setItem_throws := True\<rparr>) (Log ''m'' None)
         ((StaticLogger None)\<lparr>entries := JArr (replicate 100 (info_entry ''a''))\<rparr>)) =
     Returned (Some (log_entry defaultConfig (sample_env\<lparr>setItem_throws := True\<rparr>) ''m'' None)) \<and>
   (\<exists>ys. entries (snd (capture defaultConfig (sample_env\<lparr>setItem_throws := True\<rparr>) (Log ''m'' None)
         ((StaticLogger None)\<lparr>entries := JArr (replicate 100 (info_entry ''a''))\<rparr>))) = JArr ys \<and>
      length ys \<le> MAX_ENTRIES) \<and>
   fst (capture' (sample_env\<lparr>setItem_throws := True\<rparr>) (Warn ''m'' None)
         ((StaticLogger' None)\<lparr>logs := JArr (replicate 100 (info_entry ''a''))\<rparr>)) =
     Returned None \<and>
   (\<exists>ys. logs (snd (capture' (sample_env\<lparr>setItem_throws := True\<rparr>) (Warn ''m'' None)
         ((StaticLogger' None)\<lparr>logs := JArr (replicate 100 (info_entry ''a''))\<rparr>))) = JArr ys \<and>
      length ys \<le> MAX_LOGS)"
  using capture_bounded [of defaultConfig "sample_env\<lparr>setItem_throws := True\<rparr>" "Log ''m'' None"
      "(StaticLogger None)\<lparr>entries := JArr (replicate 100 (info_entry ''a''))\<rparr>"
      "Some (log_entry defaultConfig (sample_env\<lparr>setItem_throws := True\<rparr>) ''m'' None)"
      "Warn ''m'' None"
      "(StaticLogger' None)\<lparr>logs := JArr (replicate 100 (info_entry ''a''))\<rparr>" None]
  by (simp add: capture_array capture'_array StaticLogger_def StaticLogger'_def
        del: capture.simps capture'.simps)

section \<open>Sequences of capture calls after \<open>init\<close>\<close>

lemma entries_run_calls:
  "entries st = JArr (slice_last MAX_ENTRIES ys) \<Longrightarrow>
   entries (run_calls c ks st) =
     JArr (slice_last MAX_ENTRIES (ys @ map (\<lambda>(e, k). new_entry c e k) ks))"
proof (induction ks arbitrary: st ys)
  case Nil
  then show ?case by simp
next
  case (Cons ek ks)
  obtain e k where ek: "ek = (e, k)" by (cases ek)
  have "entries (snd (capture c e k st)) =
          JArr (slice_last MAX_ENTRIES (slice_last MAX_ENTRIES ys @ [new_entry c e k]))"
    using Cons.prems by (rule entries_capture)
  then have "entries (snd (capture c e k st)) =
          JArr (slice_last MAX_ENTRIES ((ys @ [new_entry c e k])))"
    by (simp add: slice_last_snoc MAX_ENTRIES_def)
  from Cons.IH [OF this] show ?case
    by (simp add: ek)
qed

lemma logs_run_calls':
  "logs st = JArr (slice_last MAX_LOGS ys) \<Longrightarrow>
   logs (run_calls' ks st) =
     JArr (slice_last MAX_LOGS (ys @ map (\<lambda>(e, k). new_entry' e k) ks))"
proof (induction ks arbitrary: st ys)
  case Nil
  then show ?case by simp
next
  case (Cons ek ks)
  obtain e k where ek: "ek = (e, k)" by (cases ek)
  have "logs (snd (capture' e k st)) =
          JArr (slice_last MAX_LOGS (slice_last MAX_LOGS ys @ [new_entry' e k]))"
    using Cons.prems by (rule logs_capture')
  then have "logs (snd (capture' e k st)) = JArr (slice_last MAX_LOGS ((ys @ [new_entry' e k])))"
    by (simp add: slice_last_snoc MAX_LOGS_def)
  from Cons.IH [OF this] show ?case
    by (simp add: ek)
qed

lemma pending_loadFromStorage: "pendingEntries (loadFromStorage e st) = pendingEntries st"
  by (simp add: loadFromStorage_def getItem_def split: option.splits stored_text.splits
        outcome.splits)

lemma trackPageView_capture: "trackPageView c e st = capture c e TrackPageView st"
  by simp

lemma init_array:
  assumes "entries (loadFromStorage e st) = JArr ld"
  shows "fst (init c e st) = Returned None"
    and "entries (snd (init c e st)) =
           (if trackPageViews c then JArr (slice_last MAX_ENTRIES (ld @ [pageview_entry c e]))
            else JArr ld)"
    and "pendingEntries (snd (init c e st)) =
           (if trackPageViews c then pendingEntries st @ [pageview_entry c e]
            else pendingEntries st)"
  using assms
  by (simp_all add: init_def Let_def trackPageView_capture capture_array entries_saveToStorage
        pending_saveToStorage pending_loadFromStorage startBatchTimer_def
        del: capture.simps)

lemma info_log': "info e m d st = log' e ''INFO'' m d st"
  by (simp add: info_def log'_def Let_def split: outcome.splits)

lemma logPageView_log':
  "logPageView e st =
     (case js_push (logs st) (pageview_entry' e) of
        Thrown x \<Rightarrow> (Thrown x, st)
      | Returned ls \<Rightarrow> (Returned None, saveLogs e (st\<lparr>logs := ls\<rparr>)))"
  by (simp add: logPageView_def info_log' log'_def pageview_entry'_def Let_def
        split: outcome.splits)

lemma init'_array:
  assumes "logs (loadLogs e st) = JArr ld"
  shows "fst (init' e st) = Returned None"
    and "logs (snd (init' e st)) = JArr (slice_last MAX_LOGS (ld @ [pageview_entry' e]))"
  using assms by (simp_all add: init'_def logPageView_log' entries_saveLogs)

text \<open>
  \<^bold>\<open>C1\<close>, as amended. Let \<open>init\<close> run with \<open>trackPageViews\<close> on a new logger object and
  load an array \<open>ld\<close> from the slot (the empty array when the slot is empty, unreadable or
  not JSON). After any sequence \<open>ks\<close> of capture calls the durable log is the last 100 of:
  the loaded entries, the page view, the entries of the calls in call order. Its length
  is \<open>min (length ld + length ks + 1) 100\<close>, which is \<open>min (length ks + 1) 100\<close>
  when nothing was loaded. The same holds for the simple logger, whose \<open>init'\<close> always
  logs the page view.
\<close>

theorem durable_log_after_calls:
  "(trackPageViews c \<and> entries (loadFromStorage e0 (StaticLogger s)) = JArr ld \<longrightarrow>
      entries (run_calls c ks (snd (init c e0 (StaticLogger s)))) =
        JArr (slice_last MAX_ENTRIES
               (ld @ pageview_entry c e0 # map (\<lambda>(e, k). new_entry c e k) ks)) \<and>
      array_length (entries (run_calls c ks (snd (init c e0 (StaticLogger s))))) =
        Some (min (length ld + length ks + 1) MAX_ENTRIES)) \<and>
   (logs (loadLogs e0 (StaticLogger' s)) = JArr ld' \<longrightarrow>
      logs (run_calls' ks' (snd (init' e0 (StaticLogger' s)))) =
        JArr (slice_last MAX_LOGS
               (ld' @ pageview_entry' e0 # map (\<lambda>(e, k). new_entry' e k) ks')) \<and>
      array_length (logs (run_calls' ks' (snd (init' e0 (StaticLogger' s))))) =
        Some (min (length ld' + length ks' + 1) MAX_LOGS))"
proof (intro conjI impI)
  assume a: "trackPageViews c \<and> entries (loadFromStorage e0 (StaticLogger s)) = JArr ld"
  then have "entries (snd (init c e0 (StaticLogger s))) =
               JArr (slice_last MAX_ENTRIES (ld @ [pageview_entry c e0]))"
    by (simp add: init_array(2))
  from entries_run_calls [OF this]
  show r: "entries (run_calls c ks (snd (init c e0 (StaticLogger s)))) =
        JArr (slice_last MAX_ENTRIES
               (ld @ pageview_entry c e0 # map (\<lambda>(e, k). new_entry c e k) ks))"
    by simp
  show "array_length (entries (run_calls c ks (snd (init c e0 (StaticLogger s))))) =
        Some (min (length ld + length ks + 1) MAX_ENTRIES)"
    by (simp add: r array_length_def length_slice_last min.commute)
next
  assume a: "logs (loadLogs e0 (StaticLogger' s)) = JArr ld'"
  then have "logs (snd (init' e0 (StaticLogger' s))) =
               JArr (slice_last MAX_LOGS (ld' @ [pageview_entry' e0]))"
    by (simp add: init'_array(2))
  from logs_run_calls' [OF this]
  show r: "logs (run_calls' ks' (snd (init' e0 (StaticLogger' s)))) =
        JArr (slice_last MAX_LOGS
               (ld' @ pageview_entry' e0 # map (\<lambda>(e, k). new_entry' e k) ks'))"
    by simp
  show "array_length (logs (run_calls' ks' (snd (init' e0 (StaticLogger' s))))) =
        Some (min (length ld' + length ks' + 1) MAX_LOGS)"
    by (simp add: r array_length_def length_slice_last min.commute)
qed

theorem durable_log_after_calls_witness:
  "trackPageViews defaultConfig \<and>
   entries (loadFromStorage sample_env (StaticLogger None)) = JArr [] \<and>
   entries (run_calls defaultConfig [(sample_env, Log ''a'' None), (sample_env, LogError ''b'' None)]
             (snd (init defaultConfig sample_env (StaticLogger None)))) =
     JArr [pageview_entry defaultConfig sample_env, log_entry defaultConfig sample_env ''a'' None,
           error_entry defaultConfig sample_env ''b'' None] \<and>
   array_length (entries (run_calls defaultConfig
             [(sample_env, Log ''a'' None), (sample_env, LogError ''b'' None)]
             (snd (init defaultConfig sample_env (StaticLogger None))))) = Some 3 \<and>
   logs (loadLogs sample_env (StaticLogger' None)) = JArr [] \<and>
   logs (run_calls' [(sample_env, Warn ''a'' None)] (snd (init' sample_env (StaticLogger' None)))) =
     JArr [pageview_entry' sample_env, simple_entry sample_env ''WARN'' ''a'' None] \<and>
   array_length (logs (run_calls' [(sample_env, Warn ''a'' None)]
             (snd (init' sample_env (StaticLogger' None))))) = Some 2"
proof -
  have h: "trackPageViews defaultConfig \<and>
           entries (loadFromStorage sample_env (StaticLogger None)) = JArr []"
    by (simp add: entries_loadFromStorage StaticLogger_def defaultConfig_def)
  have h': "logs (loadLogs sample_env (StaticLogger' None)) = JArr []"
    by (simp add: logs_loadLogs StaticLogger'_def)
  note t = durable_log_after_calls [of defaultConfig sample_env None "[]"
      "[(sample_env, Log ''a'' None), (sample_env, LogError ''b'' None)]" "[]"
      "[(sample_env, Warn ''a'' None)]"]
  from t h have "entries (run_calls defaultConfig
             [(sample_env, Log ''a'' None), (sample_env, LogError ''b'' None)]
             (snd (init defaultConfig sample_env (StaticLogger None)))) =
        JArr (slice_last MAX_ENTRIES
               ([] @ pageview_entry defaultConfig sample_env #
                 map (\<lambda>(e, k). new_entry defaultConfig e k)
                   [(sample_env, Log ''a'' None), (sample_env, LogError ''b'' None)]))"
    by blast
  then have a: "entries (run_calls defaultConfig
             [(sample_env, Log ''a'' None), (sample_env, LogError ''b'' None)]
             (snd (init defaultConfig sample_env (StaticLogger None)))) =
     JArr [pageview_entry defaultConfig sample_env, log_entry defaultConfig sample_env ''a'' None,
           error_entry defaultConfig sample_env ''b'' None]"
    by (simp add: slice_last_def MAX_ENTRIES_def del: run_calls.simps)
  from t h' have "logs (run_calls' [(sample_env, Warn ''a'' None)]
             (snd (init' sample_env (StaticLogger' None)))) =
        JArr (slice_last MAX_LOGS
               ([] @ pageview_entry' sample_env #
                 map (\<lambda>(e, k). new_entry' e k) [(sample_env, Warn ''a'' None)]))"
    by blast
  then have b: "logs (run_calls' [(sample_env, Warn ''a'' None)]
             (snd (init' sample_env (StaticLogger' None)))) =
     JArr [pageview_entry' sample_env, simple_entry sample_env ''WARN'' ''a'' None]"
    by (simp add: slice_last_def MAX_LOGS_def del: run_calls'.simps)
  show ?thesis
    using h h' by (simp add: a b array_length_def del: run_calls.simps run_calls'.simps)
qed

text \<open>
  \<^bold>\<open>C1\<close> as stated fails when the slot holds entries of an earlier page load: with one
  stored entry and no capture call (\<open>N = 0\<close>), the durable log after \<open>init\<close> has two
  entries, not \<open>N + 1 = 1\<close>.
\<close>

theorem durable_log_counts_loaded:
  "array_length (entries (run_calls defaultConfig []
      (snd (init defaultConfig sample_env (StaticLogger (Some (JsonText (JArr [info_entry ''old'']))))))))
     \<noteq> Some (min (0 + 1) MAX_ENTRIES)"
proof -
  have "plain (JArr [info_entry ''old''])"
    by (simp add: plain_info_entry)
  then have "serialise (JArr [info_entry ''old'']) = Returned (JArr [info_entry ''old''])"
    by (rule serialise_plain)
  then have "entries (loadFromStorage sample_env
      (StaticLogger (Some (JsonText (JArr [info_entry ''old'']))))) = JArr [info_entry ''old'']"
    by (simp add: entries_loadFromStorage StaticLogger_def sample_env_def del: serialise.simps)
  then show ?thesis
    by (simp add: init_array(2) defaultConfig_def array_length_def length_slice_last
          MAX_ENTRIES_def)
qed

section \<open>What a capture call builds and returns\<close>

lemma storage_capture':
  "logs st = JArr xs \<Longrightarrow>
   localStorage (snd (capture' e k st)) =
     (case JSON_stringify (JArr (slice_last MAX_LOGS (xs @ [new_entry' e k]))) of
        Thrown x \<Rightarrow> localStorage st
      | Returned t \<Rightarrow> if setItem_throws e then localStorage st else Some t)"
  by (simp add: capture'_array storage_saveLogs split: outcome.splits)

lemma plain_error_entry: "plain (or_null d) \<Longrightarrow> plain (error_entry c e m d)"
  by (simp add: error_entry_def plain_opt_str)

lemma plain_simple_entry: "plain (or_null d) \<Longrightarrow> plain (simple_entry e l m d)"
  by (simp add: simple_entry_def)

lemma id_of_new_entry:
  "js_get (new_entry c e k) ''id'' = Returned (Some (JStr (generateId e)))"
  by (cases k) (simp_all add: pageview_entry_def log_entry_def error_entry_def)

lemma timestamp_of_new_entry:
  "js_get (new_entry c e k) ''timestamp'' = Returned (Some (JStr (Date_iso e)))"
  by (cases k) (simp_all add: pageview_entry_def log_entry_def error_entry_def)

lemma fields_of_simple_entry:
  "js_get (simple_entry e l m d) ''id'' = Returned None"
  "js_get (simple_entry e l m d) ''timestamp'' = Returned (Some (JStr (Date_iso e)))"
  "js_get (simple_entry e l m d) ''level'' = Returned (Some (JStr l))"
  by (simp_all add: simple_entry_def)

lemma fields_of_new_entry':
  "js_get (new_entry' e k) ''id'' = Returned None"
  "js_get (new_entry' e k) ''timestamp'' = Returned (Some (JStr (Date_iso e)))"
  by (cases k; simp add: fields_of_simple_entry)+

text \<open>
  \<^bold>\<open>C5\<close>, as amended. On a durable log that is an array, \<open>log\<close> and \<open>logError\<close> of the
  batching logger build an entry whose \<^verbatim>\<open>id\<close> is \<open>generateId\<close> and whose \<^verbatim>\<open>timestamp\<close>
  is the current time, append it to the durable log (cut to the last 100) and to the
  pending queue, write the durable log to the slot unless \<^verbatim>\<open>JSON.stringify\<close> or the
  write throws, and return the entry. On a log that is an array, the capture calls of
  the simple logger (\<open>log'\<close>, \<open>info\<close>, \<open>warn\<close>, \<open>error\<close>) build an entry with a
  timestamp and no \<^verbatim>\<open>id\<close>, append it to the log (cut to the last 100), write the log
  to the slot unless \<^verbatim>\<open>JSON.stringify\<close> or the write throws, and return
  \<^verbatim>\<open>undefined\<close>; there is no pending queue.
\<close>

theorem capture_creates_entry:
  "(entries st = JArr xs \<and> k \<in> {Log m d, LogError m d} \<longrightarrow>
      fst (capture c e k st) = Returned (Some (new_entry c e k)) \<and>
      js_get (new_entry c e k) ''id'' = Returned (Some (JStr (generateId e))) \<and>
      js_get (new_entry c e k) ''timestamp'' = Returned (Some (JStr (Date_iso e))) \<and>
      entries (snd (capture c e k st)) = JArr (slice_last MAX_ENTRIES (xs @ [new_entry c e k])) \<and>
      pendingEntries (snd (capture c e k st)) = pendingEntries st @ [new_entry c e k] \<and>
      localStorage (snd (capture c e k st)) =
        (case JSON_stringify (entries (snd (capture c e k st))) of
           Thrown x \<Rightarrow> localStorage st
         | Returned t \<Rightarrow> if setItem_throws e then localStorage st else Some t)) \<and>
   (logs st' = JArr xs' \<longrightarrow>
      fst (capture' e k' st') = Returned None \<and>
      js_get (new_entry' e k') ''id'' = Returned None \<and>
      js_get (new_entry' e k') ''timestamp'' = Returned (Some (JStr (Date_iso e))) \<and>
      logs (snd (capture' e k' st')) = JArr (slice_last MAX_LOGS (xs' @ [new_entry' e k'])) \<and>
      localStorage (snd (capture' e k' st')) =
        (case JSON_stringify (logs (snd (capture' e k' st'))) of
           Thrown x \<Rightarrow> localStorage st'
         | Returned t \<Rightarrow> if setItem_throws e then localStorage st' else Some t))"
proof (intro conjI impI)
  assume a: "entries st = JArr xs \<and> k \<in> {Log m d, LogError m d}"
  then have xs: "entries st = JArr xs" and k: "k = Log m d \<or> k = LogError m d"
    by auto
  from k have "returned c e k = Some (new_entry c e k)"
    by auto
  with xs show "fst (capture c e k st) = Returned (Some (new_entry c e k))"
    by (simp add: capture_array del: capture.simps)
  show "js_get (new_entry c e k) ''id'' = Returned (Some (JStr (generateId e)))"
    by (rule id_of_new_entry)
  show "js_get (new_entry c e k) ''timestamp'' = Returned (Some (JStr (Date_iso e)))"
    by (rule timestamp_of_new_entry)
  from xs show "entries (snd (capture c e k st)) =
      JArr (slice_last MAX_ENTRIES (xs @ [new_entry c e k]))"
    by (rule entries_capture)
  from xs show "pendingEntries (snd (capture c e k st)) = pendingEntries st @ [new_entry c e k]"
    by (rule pending_capture)
  from xs show "localStorage (snd (capture c e k st)) =
        (case JSON_stringify (entries (snd (capture c e k st))) of
           Thrown x \<Rightarrow> localStorage st
         | Returned t \<Rightarrow> if setItem_throws e then localStorage st else Some t)"
    by (simp add: storage_capture entries_capture del: capture.simps)
next
  assume xs: "logs st' = JArr xs'"
  then show "fst (capture' e k' st') = Returned None"
    by (simp add: capture'_array del: capture'.simps)
  show "js_get (new_entry' e k') ''id'' = Returned None"
    by (rule fields_of_new_entry')
  show "js_get (new_entry' e k') ''timestamp'' = Returned (Some (JStr (Date_iso e)))"
    by (rule fields_of_new_entry')
  from xs show "logs (snd (capture' e k' st')) =
      JArr (slice_last MAX_LOGS (xs' @ [new_entry' e k']))"
    by (rule logs_capture')
  from xs show "localStorage (snd (capture' e k' st')) =
        (case JSON_stringify (logs (snd (capture' e k' st'))) of
           Thrown x \<Rightarrow> localStorage st'
         | Returned t \<Rightarrow> if setItem_throws e then localStorage st' else Some t)"
    by (simp add: storage_capture' logs_capture' del: capture'.simps)
qed

theorem capture_creates_entry_witness:
  "entries (StaticLogger None) = JArr [] \<and>
   LogError ''boom'' None \<in> {Log ''boom'' None, LogError ''boom'' None} \<and>
   fst (logError defaultConfig sample_env ''boom'' None (StaticLogger None)) =
     Returned (Some (error_entry defaultConfig sample_env ''boom'' None)) \<and>
   entries (snd (logError defaultConfig sample_env ''boom'' None (StaticLogger None))) =
     JArr [error_entry defaultConfig sample_env ''boom'' None] \<and>
   pendingEntries (snd (logError defaultConfig sample_env ''boom'' None (StaticLogger None))) =
     [error_entry defaultConfig sample_env ''boom'' None] \<and>
   localStorage (snd (logError defaultConfig sample_env ''boom'' None (StaticLogger None))) =
     Some (JsonText (JArr [error_entry defaultConfig sample_env ''boom'' None])) \<and>
   logs (StaticLogger' None) = JArr [] \<and>
   fst (error sample_env ''boom'' None (StaticLogger' None)) = Returned None \<and>
   logs (snd (error sample_env ''boom'' None (StaticLogger' None))) =
     JArr [simple_entry sample_env ''ERROR'' ''boom'' None] \<and>
   localStorage (snd (error sample_env ''boom'' None (StaticLogger' None))) =
     Some (JsonText (JArr [simple_entry sample_env ''ERROR'' ''boom'' None]))"
proof -
  have h: "entries (StaticLogger None) = JArr [] \<and>
           LogError ''boom'' None \<in> {Log ''boom'' None, LogError ''boom'' None}"
    by (simp add: StaticLogger_def)
  have h': "logs (StaticLogger' None) = JArr []"
    by (simp add: StaticLogger'_def)
  have s: "\<not> setItem_throws sample_env"
    by (simp add: sample_env_def)
  have sl: "slice_last MAX_ENTRIES [x] = [x]" "slice_last MAX_LOGS [x] = [x]" for x :: json
    by (simp_all add: slice_last_def MAX_ENTRIES_def MAX_LOGS_def)
  note t = capture_creates_entry [of "StaticLogger None" "[]" "LogError ''boom'' None" "''boom''"
      None defaultConfig sample_env "StaticLogger' None" "[]" "Error ''boom'' None"]
  have p: "pendingEntries (StaticLogger None) = []"
    by (simp add: StaticLogger_def)
  have "plain (JArr [error_entry defaultConfig sample_env ''boom'' None])"
    "plain (JArr [simple_entry sample_env ''ERROR'' ''boom'' None])"
    by (simp_all add: plain_error_entry plain_simple_entry or_null_def)
  then have j: "JSON_stringify (JArr [error_entry defaultConfig sample_env ''boom'' None]) =
      Returned (JsonText (JArr [error_entry defaultConfig sample_env ''boom'' None]))"
    "JSON_stringify (JArr [simple_entry sample_env ''ERROR'' ''boom'' None]) =
      Returned (JsonText (JArr [simple_entry sample_env ''ERROR'' ''boom'' None]))"
    by (simp_all add: JSON_stringify_def serialise_plain del: serialise.simps plain.simps)
  from t h h' s show ?thesis
    by (simp add: sl p j)
qed

text \<open>
  \<^bold>\<open>C5\<close> as stated fails for \<open>info\<close> (and \<open>warn\<close>, \<open>error\<close>, \<open>log'\<close>): the call
  appends an entry, the entry has no \<^verbatim>\<open>id\<close>, and the call returns \<^verbatim>\<open>undefined\<close>, not
  the entry.
\<close>

theorem info_returns_undefined:
  "logs (snd (info sample_env ''m'' None (StaticLogger' None))) =
     JArr [simple_entry sample_env ''INFO'' ''m'' None] \<and>
   js_get (simple_entry sample_env ''INFO'' ''m'' None) ''id'' = Returned None \<and>
   fst (info sample_env ''m'' None (StaticLogger' None)) \<noteq>
     Returned (Some (simple_entry sample_env ''INFO'' ''m'' None))"
  by (simp add: info_log' log'_def StaticLogger'_def entries_saveLogs slice_last_def
        fields_of_simple_entry Let_def MAX_LOGS_def)

section \<open>Reading the log\<close>

lemma filter_level_subset:
  "JNull \<notin> set ls \<Longrightarrow> filter_level level ls = Returned (level_subset level ls)"
proof (induction ls)
  case Nil
  then show ?case by (simp add: level_subset_def)
next
  case (Cons l ls)
  then have l: "l \<noteq> JNull" and ih: "filter_level level ls = Returned (level_subset level ls)"
    by auto
  from l obtain v where v: "js_get l ''level'' = Returned v"
    by (cases l) auto
  show ?case
    by (simp add: v ih level_subset_def)
qed

text \<open>
  \<^bold>\<open>C4\<close>, as amended. \<open>getLogs\<close> of the simple logger, called with a non-empty level
  string on a log that is an array without \<^verbatim>\<open>null\<close> elements, returns exactly the
  entries whose \<^verbatim>\<open>level\<close> equals the filter, in the original order; called without a
  filter (or with the empty string) it returns the whole log. \<open>getEntries\<close> of the
  batching logger has no filter and returns the whole durable log.
\<close>

theorem getLogs_filters:
  "(str_truthy level \<and> logs st = JArr ls \<and> JNull \<notin> set ls \<longrightarrow>
      getLogs level st = Returned (JArr (level_subset (the level) ls))) \<and>
   (\<not> str_truthy level \<longrightarrow> getLogs level st = Returned (logs st)) \<and>
   getLogs None st = Returned (logs st) \<and>
   getEntries st' = entries st'"
  by (simp add: getLogs_def getEntries_def filter_level_subset str_truthy_def)

theorem getLogs_filters_witness:
  "str_truthy (Some ''ERROR'') \<and>
   JNull \<notin> set [simple_entry sample_env ''INFO'' ''a'' None,
                  simple_entry sample_env ''ERROR'' ''b'' None,
                  simple_entry sample_env ''WARN'' ''c'' None] \<and>
   getLogs (Some ''ERROR'')
     ((StaticLogger' None)\<lparr>logs := JArr [simple_entry sample_env ''INFO'' ''a'' None,
                                          simple_entry sample_env ''ERROR'' ''b'' None,
                                          simple_entry sample_env ''WARN'' ''c'' None]\<rparr>) =
     Returned (JArr [simple_entry sample_env ''ERROR'' ''b'' None]) \<and>
   \<not> str_truthy (Some '''') \<and>
   getLogs (Some '''')
     ((StaticLogger' None)\<lparr>logs := JArr [simple_entry sample_env ''INFO'' ''a'' None,
                                          simple_entry sample_env ''ERROR'' ''b'' None,
                                          simple_entry sample_env ''WARN'' ''c'' None]\<rparr>) =
     Returned (JArr [simple_entry sample_env ''INFO'' ''a'' None,
                     simple_entry sample_env ''ERROR'' ''b'' None,
                     simple_entry sample_env ''WARN'' ''c'' None])"
proof -
  let ?ls = "[simple_entry sample_env ''INFO'' ''a'' None,
              simple_entry sample_env ''ERROR'' ''b'' None,
              simple_entry sample_env ''WARN'' ''c'' None]"
  let ?st = "(StaticLogger' None)\<lparr>logs := JArr ?ls\<rparr>"
  have n: "JNull \<notin> set ?ls"
    by (simp add: simple_entry_def)
  have s: "level_subset ''ERROR'' ?ls = [simple_entry sample_env ''ERROR'' ''b'' None]"
    by (simp add: level_subset_def fields_of_simple_entry)
  from getLogs_filters [of "Some ''ERROR''" ?st ?ls] n
  have a: "getLogs (Some ''ERROR'') ?st = Returned (JArr (level_subset ''ERROR'' ?ls))"
    by (simp add: str_truthy_def)
  from getLogs_filters [of "Some ''''" ?st ?ls]
  have b: "getLogs (Some '''') ?st = Returned (JArr ?ls)"
    by (simp add: str_truthy_def)
  show ?thesis
    using n a b by (simp add: s str_truthy_def)
qed

text \<open>
  \<^bold>\<open>C4\<close> as stated fails for \<open>getEntries\<close>: whatever level the caller passes, it returns
  the whole durable log, here both an \<^verbatim>\<open>INFO\<close> and an \<^verbatim>\<open>ERROR\<close> entry, not the
  \<^verbatim>\<open>ERROR\<close> subset.
\<close>

theorem getEntries_ignores_filter:
  "getEntries ((StaticLogger None)\<lparr>entries :=
       JArr [info_entry ''a'', error_entry defaultConfig sample_env ''b'' None]\<rparr>) \<noteq>
   JArr (level_subset ''ERROR'' [info_entry ''a'', error_entry defaultConfig sample_env ''b'' None])"
  by (simp add: getEntries_def level_subset_def info_entry_def log_entry_def error_entry_def)

section \<open>Flushing the pending queue\<close>

lemma onSettled_cases:
  "onSettled r batch st = (if success_flag r then st else requeue batch st)"
  by (simp add: onSettled_def success_flag_def split: outcome.splits)

lemma success_flag_simps:
  "success_flag (NetworkError m) = False"
  "success_flag (BodyNotJson status m) = False"
  "success_flag (Body status JNull) = False"
  "success_flag (Body status (JObj kvs)) =
     truthy_opt (case map_of kvs ''success'' of None \<Rightarrow> None | Some v \<Rightarrow> v)"
  by (simp_all add: success_flag_def)

lemma entries_capture_array:
  "\<exists>xs. entries st = JArr xs \<Longrightarrow> \<exists>xs. entries (snd (capture c e k st)) = JArr xs"
  by (auto simp: entries_capture simp del: capture.simps)

lemma pending_run_calls:
  "\<exists>xs. entries st = JArr xs \<Longrightarrow>
   pendingEntries (run_calls c ks st) =
     pendingEntries st @ map (\<lambda>(e, k). new_entry c e k) ks"
proof (induction ks arbitrary: st)
  case Nil
  then show ?case by simp
next
  case (Cons ek ks)
  obtain e k where ek: "ek = (e, k)" by (cases ek)
  from Cons.prems obtain xs where xs: "entries st = JArr xs" ..
  have "pendingEntries (run_calls c ks (snd (capture c e k st))) =
          pendingEntries (snd (capture c e k st)) @ map (\<lambda>(e, k). new_entry c e k) ks"
    using Cons.prems by (intro Cons.IH entries_capture_array)
  then show ?case
    using xs by (simp add: ek pending_capture del: capture.simps)
qed

lemma serialise_opt_str: "serialise (opt_str x) = Returned (opt_str x)"
  by (simp add: opt_str_def split: option.splits)

lemma stringify_payload:
  "JSON_stringify (JObj [(''siteId'', Some (opt_str a)), (''apiKey'', Some (opt_str b)),
                         (''entries'', Some (JArr batch))]) =
     (case serialise (JArr batch) of
        Thrown x \<Rightarrow> Thrown x
      | Returned j \<Rightarrow>
          Returned (JsonText (JObj [(''siteId'', Some (opt_str a)), (''apiKey'', Some (opt_str b)),
                                    (''entries'', Some (JArr batch))])))"
  by (simp add: JSON_stringify_def serialise_opt_str split: outcome.splits)

lemma sendPendingData_idle:
  "\<not> str_truthy (apiEndpoint c) \<or> pendingEntries st = [] \<Longrightarrow>
   sendPendingData c st = (Returned None, st)"
  by (auto simp: sendPendingData_def)

lemma sendPendingData_sends:
  assumes "str_truthy (apiEndpoint c)" and "pendingEntries st \<noteq> []"
    and "serialise (JArr (take (nat (maxBatchSize c)) (pendingEntries st))) = Returned j"
  shows "sendPendingData c st =
     (Returned (Some
        (\<lparr>url = the (apiEndpoint c),
          headers = [(''Content-Type'', ''application/json'')] @
                    (if str_truthy (apiKey c) then [(''X-API-Key'', the (apiKey c))] else []),
          body = JsonText (JObj [(''siteId'', Some (opt_str (siteId c))),
                                 (''apiKey'', Some (opt_str (apiKey c))),
                                 (''entries'',
                                    Some (JArr (take (nat (maxBatchSize c))
                                                  (pendingEntries st))))])\<rparr>,
         take (nat (maxBatchSize c)) (pendingEntries st))),
      st\<lparr>pendingEntries := drop (nat (maxBatchSize c)) (pendingEntries st)\<rparr>)"
  using assms
  by (simp add: sendPendingData_def sendToApi_def stringify_payload Let_def
        del: serialise.simps)

text \<open>
  When \<^verbatim>\<open>JSON.stringify\<close> throws on the batch, \<open>sendPendingData\<close> and \<open>flush\<close> throw: the
  batch has left the queue, no request is made and no callback will put it back.
\<close>

lemma sendPendingData_throws:
  assumes "str_truthy (apiEndpoint c)" and "pendingEntries st \<noteq> []"
    and "serialise (JArr (take (nat (maxBatchSize c)) (pendingEntries st))) = Thrown x"
  shows "sendPendingData c st =
     (Thrown x, st\<lparr>pendingEntries := drop (nat (maxBatchSize c)) (pendingEntries st)\<rparr>)"
  using assms
  by (simp add: sendPendingData_def sendToApi_def stringify_payload Let_def
        del: serialise.simps)

lemma flush_throws_on_cyclic_data:
  "flush remote_config
     ((StaticLogger None)\<lparr>pendingEntries :=
         [log_entry remote_config sample_env ''m'' (Some (JCyclic []))]\<rparr>) =
   (Thrown TypeError, StaticLogger None)"
  by (simp add: flush_def sendPendingData_def sendToApi_def JSON_stringify_def remote_config_def
        defaultConfig_def str_truthy_def log_entry_def or_null_def opt_str_def StaticLogger_def
        Let_def)

text \<open>
  \<^bold>\<open>C2\<close>, as amended. With an endpoint configured, a non-empty pending queue \<open>ps\<close> and
  a batch that \<^verbatim>\<open>JSON.stringify\<close> accepts, \<open>flush\<close> returns, having taken the first
  \<open>maxBatchSize\<close> entries off the queue (all of them when there are fewer), left the rest
  in order, and handed that batch to the request. What the callbacks go by is the
  \<^verbatim>\<open>success\<close> field of the parsed body alone: when the request is rejected, the body is
  not JSON, or the parsed body has no true \<^verbatim>\<open>success\<close>, the batch is put back in front
  of the queue as it is by then, the batch unchanged; when the parsed body has a true
  \<^verbatim>\<open>success\<close>, whatever the status, the queue is left alone. So if capture calls \<open>ks\<close>
  were made between the flush and the failure, the queue afterwards is \<open>ps\<close> followed by
  the entries of \<open>ks\<close>. The durable log is not touched.
\<close>

theorem flush_requeues_failed_batch:
  "(str_truthy (apiEndpoint c) \<and> pendingEntries st \<noteq> [] \<and>
    serialise (JArr (take (nat (maxBatchSize c)) (pendingEntries st))) = Returned j \<longrightarrow>
      (\<exists>req st1.
         flush c st = (Returned (Some (req, take (nat (maxBatchSize c)) (pendingEntries st))), st1) \<and>
         length (take (nat (maxBatchSize c)) (pendingEntries st)) =
           min (nat (maxBatchSize c)) (length (pendingEntries st)) \<and>
         pendingEntries st1 = drop (nat (maxBatchSize c)) (pendingEntries st) \<and>
         take (nat (maxBatchSize c)) (pendingEntries st) @ pendingEntries st1 = pendingEntries st \<and>
         entries st1 = entries st \<and>
         body_entries (body req) = take (nat (maxBatchSize c)) (pendingEntries st))) \<and>
   (\<not> success_flag r \<longrightarrow>
      onSettled r batch' st2 = st2\<lparr>pendingEntries := batch' @ pendingEntries st2\<rparr>) \<and>
   (success_flag r \<longrightarrow> onSettled r batch' st2 = st2) \<and>
   \<not> success_flag (NetworkError m) \<and>
   \<not> success_flag (BodyNotJson status m) \<and>
   success_flag (Body status (JObj kvs)) =
     truthy_opt (case map_of kvs ''success'' of None \<Rightarrow> None | Some v \<Rightarrow> v) \<and>
   (str_truthy (apiEndpoint c) \<and> pendingEntries st \<noteq> [] \<and>
    serialise (JArr (take (nat (maxBatchSize c)) (pendingEntries st))) = Returned j \<and>
    \<not> success_flag r \<and> entries st = JArr xs \<longrightarrow>
      pendingEntries (onSettled r (take (nat (maxBatchSize c)) (pendingEntries st))
                       (run_calls c ks (snd (flush c st)))) =
        pendingEntries st @ map (\<lambda>(e, k). new_entry c e k) ks)"
proof (intro conjI impI)
  let ?n = "nat (maxBatchSize c)"
  assume a: "str_truthy (apiEndpoint c) \<and> pendingEntries st \<noteq> [] \<and>
    serialise (JArr (take ?n (pendingEntries st))) = Returned j"
  then have s: "sendPendingData c st =
     (Returned (Some
        (\<lparr>url = the (apiEndpoint c),
          headers = [(''Content-Type'', ''application/json'')] @
                    (if str_truthy (apiKey c) then [(''X-API-Key'', the (apiKey c))] else []),
          body = JsonText (JObj [(''siteId'', Some (opt_str (siteId c))),
                                 (''apiKey'', Some (opt_str (apiKey c))),
                                 (''entries'', Some (JArr (take ?n (pendingEntries st))))])\<rparr>,
         take ?n (pendingEntries st))),
      st\<lparr>pendingEntries := drop ?n (pendingEntries st)\<rparr>)"
    by (intro sendPendingData_sends) simp_all
  show "\<exists>req st1.
         flush c st = (Returned (Some (req, take ?n (pendingEntries st))), st1) \<and>
         length (take ?n (pendingEntries st)) = min ?n (length (pendingEntries st)) \<and>
         pendingEntries st1 = drop ?n (pendingEntries st) \<and>
         take ?n (pendingEntries st) @ pendingEntries st1 = pendingEntries st \<and>
         entries st1 = entries st \<and>
         body_entries (body req) = take ?n (pendingEntries st)"
    by (simp add: flush_def s min.commute)
next
  assume "\<not> success_flag r"
  then show "onSettled r batch' st2 = st2\<lparr>pendingEntries := batch' @ pendingEntries st2\<rparr>"
    by (simp add: onSettled_cases requeue_def)
next
  assume "success_flag r"
  then show "onSettled r batch' st2 = st2"
    by (simp add: onSettled_cases)
next
  show "\<not> success_flag (NetworkError m)" "\<not> success_flag (BodyNotJson status m)"
    by (simp_all add: success_flag_simps)
  show "success_flag (Body status (JObj kvs)) =
     truthy_opt (case map_of kvs ''success'' of None \<Rightarrow> None | Some v \<Rightarrow> v)"
    by (rule success_flag_simps)
next
  let ?n = "nat (maxBatchSize c)"
  let ?st1 = "st\<lparr>pendingEntries := drop ?n (pendingEntries st)\<rparr>"
  assume a: "str_truthy (apiEndpoint c) \<and> pendingEntries st \<noteq> [] \<and>
    serialise (JArr (take ?n (pendingEntries st))) = Returned j \<and>
    \<not> success_flag r \<and> entries st = JArr xs"
  then have "snd (sendPendingData c st) = ?st1"
    by (subst sendPendingData_sends [where j = j]) simp_all
  then have f: "snd (flush c st) = ?st1"
    by (simp add: flush_def)
  from a have "\<exists>xs. entries ?st1 = JArr xs"
    by simp
  then have "pendingEntries (run_calls c ks ?st1) =
      pendingEntries ?st1 @ map (\<lambda>(e, k). new_entry c e k) ks"
    by (rule pending_run_calls)
  then have "take ?n (pendingEntries st) @ pendingEntries (run_calls c ks ?st1) =
      pendingEntries st @ map (\<lambda>(e, k). new_entry c e k) ks"
    by simp
  with a show "pendingEntries (onSettled r (take ?n (pendingEntries st))
                       (run_calls c ks (snd (flush c st)))) =
        pendingEntries st @ map (\<lambda>(e, k). new_entry c e k) ks"
    by (simp add: f onSettled_cases requeue_def)
qed

theorem flush_requeues_failed_batch_witness:
  "str_truthy (apiEndpoint (remote_config\<lparr>maxBatchSize := 1\<rparr>)) \<and>
   pendingEntries ((StaticLogger None)\<lparr>entries := JArr [info_entry ''a'', info_entry ''b''],
      pendingEntries := [info_entry ''a'', info_entry ''b'']\<rparr>) \<noteq> [] \<and>
   serialise (JArr [info_entry ''a'']) = Returned (JArr [info_entry ''a'']) \<and>
   \<not> success_flag (Body 200 (JObj [(''success'', Some (JBool False))])) \<and>
   success_flag (Body 500 (JObj [(''success'', Some (JBool True))])) \<and>
   (\<exists>req. fst (flush (remote_config\<lparr>maxBatchSize := 1\<rparr>)
     ((StaticLogger None)\<lparr>entries := JArr [info_entry ''a'', info_entry ''b''],
        pendingEntries := [info_entry ''a'', info_entry ''b'']\<rparr>)) =
      Returned (Some (req, [info_entry ''a'']))) \<and>
   pendingEntries (snd (flush (remote_config\<lparr>maxBatchSize := 1\<rparr>)
     ((StaticLogger None)\<lparr>entries := JArr [info_entry ''a'', info_entry ''b''],
        pendingEntries := [info_entry ''a'', info_entry ''b'']\<rparr>))) = [info_entry ''b''] \<and>
   pendingEntries (onSettled (Body 200 (JObj [(''success'', Some (JBool False))]))
     [info_entry ''a'']
     (run_calls (remote_config\<lparr>maxBatchSize := 1\<rparr>) [(sample_env, Log ''c'' None)]
       (snd (flush (remote_config\<lparr>maxBatchSize := 1\<rparr>)
         ((StaticLogger None)\<lparr>entries := JArr [info_entry ''a'', info_entry ''b''],
            pendingEntries := [info_entry ''a'', info_entry ''b'']\<rparr>))))) =
     [info_entry ''a'', info_entry ''b'',
      log_entry (remote_config\<lparr>maxBatchSize := 1\<rparr>) sample_env ''c'' None] \<and>
   pendingEntries (onSettled (Body 500 (JObj [(''success'', Some (JBool True))]))
     [info_entry ''a'']
     ((StaticLogger None)\<lparr>pendingEntries := [info_entry ''b'']\<rparr>)) = [info_entry ''b'']"
proof -
  let ?c = "remote_config\<lparr>maxBatchSize := 1\<rparr>"
  let ?st = "(StaticLogger None)\<lparr>entries := JArr [info_entry ''a'', info_entry ''b''],
      pendingEntries := [info_entry ''a'', info_entry ''b'']\<rparr>"
  let ?r = "Body 200 (JObj [(''success'', Some (JBool False))])"
  let ?r' = "Body 500 (JObj [(''success'', Some (JBool True))])"
  let ?st2 = "(StaticLogger None)\<lparr>pendingEntries := [info_entry ''b'']\<rparr>"
  have n: "nat (maxBatchSize ?c) = 1"
    by simp
  have "plain (JArr [info_entry ''a''])"
    by (simp add: plain_info_entry)
  then have s: "serialise (JArr [info_entry ''a'']) = Returned (JArr [info_entry ''a''])"
    by (rule serialise_plain)
  have h: "str_truthy (apiEndpoint ?c) \<and> pendingEntries ?st \<noteq> [] \<and>
      serialise (JArr (take (nat (maxBatchSize ?c)) (pendingEntries ?st))) =
        Returned (JArr [info_entry ''a''])"
    using s by (simp add: remote_config_def str_truthy_def del: serialise.simps)
  have f: "\<not> success_flag ?r" "success_flag ?r'"
    by (simp_all add: success_flag_simps)
  have e: "entries ?st = JArr [info_entry ''a'', info_entry ''b'']"
    by simp
  note t = flush_requeues_failed_batch [of ?c ?st "JArr [info_entry ''a'']" ?r
      "[info_entry ''a'']" ?st2 _ _ _ "[info_entry ''a'', info_entry ''b'']"
      "[(sample_env, Log ''c'' None)]"]
  from t h obtain req st1 where
    1: "flush ?c ?st = (Returned (Some (req, take (nat (maxBatchSize ?c)) (pendingEntries ?st))), st1)"
      "pendingEntries st1 = drop (nat (maxBatchSize ?c)) (pendingEntries ?st)"
    by blast
  then have 2: "\<exists>req. fst (flush ?c ?st) = Returned (Some (req, [info_entry ''a'']))"
    "pendingEntries (snd (flush ?c ?st)) = [info_entry ''b'']"
    by auto
  from t h f e have 3: "pendingEntries (onSettled ?r (take (nat (maxBatchSize ?c)) (pendingEntries ?st))
                       (run_calls ?c [(sample_env, Log ''c'' None)] (snd (flush ?c ?st)))) =
        pendingEntries ?st @ map (\<lambda>(e, k). new_entry ?c e k) [(sample_env, Log ''c'' None)]"
    by blast
  note t' = flush_requeues_failed_batch [of ?c ?st "JArr [info_entry ''a'']" ?r'
      "[info_entry ''a'']" ?st2]
  from t' f have 4: "onSettled ?r' [info_entry ''a''] ?st2 = ?st2"
    by blast
  from 3 have 5: "pendingEntries (onSettled ?r [info_entry ''a'']
                       (run_calls ?c [(sample_env, Log ''c'' None)] (snd (flush ?c ?st)))) =
        [info_entry ''a'', info_entry ''b'', log_entry ?c sample_env ''c'' None]"
    by (simp del: run_calls.simps)
  have "str_truthy (apiEndpoint ?c)" "pendingEntries ?st \<noteq> []"
    using h by simp_all
  then show ?thesis
    using s f 2 4 5 by (simp del: run_calls.simps serialise.simps)
qed

text \<open>
  \<^bold>\<open>C2\<close> as stated fails for an answer with a status that is not 2xx, which the
  specification counts as a failed transmission, and a body with a true \<^verbatim>\<open>success\<close>:
  the batch that \<open>flush\<close> took off the queue is not put back.
\<close>

theorem failed_status_not_requeued:
  "spec_failed (Body 500 (JObj [(''success'', Some (JBool True))])) \<and>
   pendingEntries (lg sample_page) = [info_entry ''a''] \<and>
   pendingEntries (snd (flush remote_config (lg sample_page))) = [] \<and>
   pendingEntries (onSettled (Body 500 (JObj [(''success'', Some (JBool True))]))
                    [info_entry ''a''] (snd (flush remote_config (lg sample_page)))) = []"
proof -
  have "plain (JArr [info_entry ''a''])"
    by (simp add: plain_info_entry)
  then have s: "serialise (JArr [info_entry ''a'']) = Returned (JArr [info_entry ''a''])"
    by (rule serialise_plain)
  have "snd (sendPendingData remote_config (lg sample_page)) =
      (lg sample_page)\<lparr>pendingEntries := drop (nat (maxBatchSize remote_config))
                                            (pendingEntries (lg sample_page))\<rparr>"
    by (subst sendPendingData_sends [where j = "JArr [info_entry ''a'']"])
       (simp_all add: s remote_config_def defaultConfig_def str_truthy_def sample_page_def
          del: serialise.simps)
  then have f: "pendingEntries (snd (flush remote_config (lg sample_page))) = []"
    by (simp add: flush_def sample_page_def remote_config_def defaultConfig_def)
  show ?thesis
    by (simp add: f onSettled_cases success_flag_simps) (simp add: sample_page_def)
qed

section \<open>The durable log and the pending queue over a page load\<close>

lemma lg_step_Capture_array:
  "entries (lg p) = JArr xs \<Longrightarrow>
   entries (lg (step c (Capture e k) p)) = JArr (slice_last MAX_ENTRIES (xs @ [new_entry c e k])) \<and>
   pendingEntries (lg (step c (Capture e k) p)) = pendingEntries (lg p) @ [new_entry c e k]"
  by (simp add: entries_capture pending_capture del: capture.simps)

lemma lg_step_Capture_not_array:
  "\<not> (\<exists>xs. entries (lg p) = JArr xs) \<Longrightarrow> lg (step c (Capture e k) p) = lg p"
  by (simp add: capture_not_array del: capture.simps)

lemma step_Flush_idle:
  "\<not> (str_truthy (apiEndpoint c) \<and> pendingEntries (lg p) \<noteq> []) \<Longrightarrow> step c Flush p = p"
  by (simp add: flush_def sendPendingData_idle)

lemma step_Flush_sends:
  assumes "str_truthy (apiEndpoint c)" and "pendingEntries (lg p) \<noteq> []"
    and "serialise (JArr (take (nat (maxBatchSize c)) (pendingEntries (lg p)))) = Returned j"
  shows "step c Flush p =
     p\<lparr>lg := (lg p)\<lparr>pendingEntries := drop (nat (maxBatchSize c)) (pendingEntries (lg p))\<rparr>,
       inflight := inflight p @ [take (nat (maxBatchSize c)) (pendingEntries (lg p))],
       sent := sent p @
         [\<lparr>url = the (apiEndpoint c),
           headers = [(''Content-Type'', ''application/json'')] @
                     (if str_truthy (apiKey c) then [(''X-API-Key'', the (apiKey c))] else []),
           body = JsonText (JObj [(''siteId'', Some (opt_str (siteId c))),
                                  (''apiKey'', Some (opt_str (apiKey c))),
                                  (''entries'',
                                     Some (JArr (take (nat (maxBatchSize c))
                                                   (pendingEntries (lg p)))))])\<rparr>]\<rparr>"
  by (simp add: flush_def sendPendingData_sends [OF assms] del: serialise.simps)

lemma step_Flush_throws:
  assumes "str_truthy (apiEndpoint c)" and "pendingEntries (lg p) \<noteq> []"
    and "serialise (JArr (take (nat (maxBatchSize c)) (pendingEntries (lg p)))) = Thrown x"
  shows "step c Flush p =
     p\<lparr>lg := (lg p)\<lparr>pendingEntries := drop (nat (maxBatchSize c)) (pendingEntries (lg p))\<rparr>\<rparr>"
  by (simp add: flush_def sendPendingData_throws [OF assms] del: serialise.simps)


lemma step_Settled:
  "step c (Settled i r) p =
     (if i < length (inflight p) then
        p\<lparr>lg := (if success_flag r then lg p
                  else (lg p)\<lparr>pendingEntries := inflight p ! i @ pendingEntries (lg p)\<rparr>),
          inflight := take i (inflight p) @ drop (Suc i) (inflight p)\<rparr>
      else p)"
  by (simp add: onSettled_cases requeue_def)

lemma lg_step_Clear:
  "entries (lg (step c (Clear e) p)) = JArr [] \<and> pendingEntries (lg (step c (Clear e) p)) = []"
  by (simp add: clear_def removeItem_def Let_def)





section \<open>What reaches the pending queue and the endpoint\<close>

lemma init_pending:
  "pendingEntries (snd (init c e st)) =
     (if trackPageViews c \<and> fst (init c e st) = Returned None
      then pendingEntries st @ [pageview_entry c e] else pendingEntries st)"
proof (cases "\<exists>ld. entries (loadFromStorage e st) = JArr ld")
  case True
  then obtain ld where "entries (loadFromStorage e st) = JArr ld" ..
  then show ?thesis
    by (simp add: init_array)
next
  case False
  then have "capture c e TrackPageView (loadFromStorage e st) =
      (Thrown TypeError, loadFromStorage e st)"
    by (simp add: capture_not_array del: capture.simps)
  then show ?thesis
    by (simp add: init_def Let_def pending_loadFromStorage startBatchTimer_def)
qed

lemma set_nth_concat: "i < length xss \<Longrightarrow> set (xss ! i) \<subseteq> set (concat xss)"
proof -
  assume "i < length xss"
  then have "xss ! i \<in> set xss"
    by (rule nth_mem)
  then show ?thesis
    by auto
qed

lemma set_concat_remove:
  "set (concat (take i xss @ drop (Suc i) xss)) \<subseteq> set (concat xss)"
proof -
  have "set (take i xss) \<subseteq> set xss" "set (drop (Suc i) xss) \<subseteq> set xss"
    by (rule set_take_subset, rule set_drop_subset)
  then show ?thesis by auto
qed

lemma step_keeps_created:
  assumes "set (pendingEntries (lg p)) \<subseteq> C"
    and "set (concat (inflight p)) \<subseteq> C"
    and "set (concat (map (\<lambda>r. body_entries (body r)) (sent p))) \<subseteq> C"
  shows "set (pendingEntries (lg (step c ev p))) \<subseteq> C \<union> set (created c ev) \<and>
         set (concat (inflight (step c ev p))) \<subseteq> C \<union> set (created c ev) \<and>
         set (concat (map (\<lambda>r. body_entries (body r)) (sent (step c ev p))))
           \<subseteq> C \<union> set (created c ev)"
proof (cases ev)
  case (Capture e k)
  show ?thesis
  proof (cases "\<exists>xs. entries (lg p) = JArr xs")
    case True
    then obtain xs where "entries (lg p) = JArr xs" ..
    then have "pendingEntries (lg (step c (Capture e k) p)) =
        pendingEntries (lg p) @ [new_entry c e k]"
      by (simp add: lg_step_Capture_array del: step.simps)
    moreover have "inflight (step c (Capture e k) p) = inflight p"
      "sent (step c (Capture e k) p) = sent p"
      by simp_all
    ultimately show ?thesis
      using assms Capture by auto
  next
    case False
    then have "lg (step c (Capture e k) p) = lg p"
      by (rule lg_step_Capture_not_array)
    moreover have "inflight (step c (Capture e k) p) = inflight p"
      "sent (step c (Capture e k) p) = sent p"
      by simp_all
    ultimately show ?thesis
      using assms Capture by auto
  qed
next
  case Flush
  have td: "set (take (nat (maxBatchSize c)) (pendingEntries (lg p))) \<subseteq> C"
    "set (drop (nat (maxBatchSize c)) (pendingEntries (lg p))) \<subseteq> C"
    using assms(1) set_take_subset set_drop_subset by fast+
  show ?thesis
  proof (cases "str_truthy (apiEndpoint c) \<and> pendingEntries (lg p) \<noteq> []")
    case False
    then show ?thesis
      using assms Flush by (simp add: step_Flush_idle del: step.simps)
  next
    case True
    show ?thesis
    proof (cases "serialise (JArr (take (nat (maxBatchSize c)) (pendingEntries (lg p))))")
      case (Returned j)
      with True td assms Flush show ?thesis
        by (simp add: step_Flush_sends [where j = j] del: step.simps serialise.simps)
    next
      case (Thrown x)
      with True td assms Flush show ?thesis
        by (simp add: step_Flush_throws [where x = x] del: step.simps serialise.simps)
    qed
  qed
next
  case (Init e)
  have "set (pendingEntries (snd (init c e (lg p)))) \<subseteq>
      set (pendingEntries (lg p)) \<union> set (created c (Init e))"
    by (auto simp: init_pending)
  then show ?thesis
    using assms Init by auto
next
  case (Load e)
  then show ?thesis
    using assms by (simp add: pending_loadFromStorage)
next
  case (Save e)
  then show ?thesis
    using assms by (simp add: pending_saveToStorage)
next
  case StartTimer
  then show ?thesis
    using assms by (simp add: startBatchTimer_def)
next
  case (Export e)
  then show ?thesis using assms by simp
next
  case (Settled i r)
  have rm: "set (concat (take i (inflight p) @ drop (Suc i) (inflight p))) \<subseteq> C"
    using set_concat_remove assms(2) by fast
  have "i < length (inflight p) \<Longrightarrow> set (inflight p ! i) \<subseteq> C"
    using set_nth_concat assms(2) by fast
  then show ?thesis
    using assms Settled rm by (simp add: step_Settled del: step.simps)
next
  case GetEntries
  then show ?thesis using assms by simp
next
  case (Clear e)
  have "pendingEntries (lg (step c (Clear e) p)) = []"
    by (simp add: lg_step_Clear del: step.simps)
  moreover have "inflight (step c (Clear e) p) = inflight p" "sent (step c (Clear e) p) = sent p"
    by simp_all
  ultimately show ?thesis
    using assms Clear by simp
qed

lemma run_keeps_created:
  "set (pendingEntries (lg p)) \<subseteq> C \<Longrightarrow>
   set (concat (inflight p)) \<subseteq> C \<Longrightarrow>
   set (concat (map (\<lambda>r. body_entries (body r)) (sent p))) \<subseteq> C \<Longrightarrow>
   set (pendingEntries (lg (run c evs p))) \<subseteq> C \<union> set (concat (map (created c) evs)) \<and>
   set (concat (inflight (run c evs p))) \<subseteq> C \<union> set (concat (map (created c) evs)) \<and>
   set (concat (map (\<lambda>r. body_entries (body r)) (sent (run c evs p))))
     \<subseteq> C \<union> set (concat (map (created c) evs))"
proof (induction evs arbitrary: p C)
  case Nil
  then show ?case by simp
next
  case (Cons ev evs)
  from step_keeps_created [OF Cons.prems, of c ev]
  have "set (pendingEntries (lg (step c ev p))) \<subseteq> C \<union> set (created c ev)"
    "set (concat (inflight (step c ev p))) \<subseteq> C \<union> set (created c ev)"
    "set (concat (map (\<lambda>r. body_entries (body r)) (sent (step c ev p))))
           \<subseteq> C \<union> set (created c ev)"
    by simp_all
  from Cons.IH [OF this] show ?case
    by (simp add: Un_assoc)
qed

text \<open>
  \<^bold>\<open>C9\<close>. \<open>loadFromStorage\<close> assigns the durable log only and leaves the pending
  queue as it is. On the new logger object of a page load, whose queue is empty, the
  pending queue after \<open>init\<close> holds the page-view entry when \<open>trackPageViews\<close> is on and
  \<open>init\<close> returned, and nothing otherwise. From then on, whatever events the page runs,
  every entry in the pending queue, in a batch that is under way and in the body of a
  request handed to \<^verbatim>\<open>fetch\<close> is that page view or the entry of a capture call of
  this page load.
\<close>

theorem pending_only_from_this_page_load:
  "pendingEntries (loadFromStorage e0 st) = pendingEntries st \<and>
   pendingEntries (snd (init c e0 (StaticLogger s))) =
     (if trackPageViews c \<and> fst (init c e0 (StaticLogger s)) = Returned None
      then [pageview_entry c e0] else []) \<and>
   set (pendingEntries (lg (run c evs
          \<lparr>lg = snd (init c e0 (StaticLogger s)), inflight = [], sent = []\<rparr>)))
     \<subseteq> set (pendingEntries (snd (init c e0 (StaticLogger s)))) \<union> set (concat (map (created c) evs)) \<and>
   set (concat (inflight (run c evs
          \<lparr>lg = snd (init c e0 (StaticLogger s)), inflight = [], sent = []\<rparr>)))
     \<subseteq> set (pendingEntries (snd (init c e0 (StaticLogger s)))) \<union> set (concat (map (created c) evs)) \<and>
   set (concat (map (\<lambda>r. body_entries (body r)) (sent (run c evs
          \<lparr>lg = snd (init c e0 (StaticLogger s)), inflight = [], sent = []\<rparr>))))
     \<subseteq> set (pendingEntries (snd (init c e0 (StaticLogger s)))) \<union> set (concat (map (created c) evs))"
proof -
  let ?p0 = "\<lparr>lg = snd (init c e0 (StaticLogger s)), inflight = [], sent = []\<rparr>"
  have "pendingEntries (StaticLogger s) = []"
    by (simp add: StaticLogger_def)
  then have i: "pendingEntries (snd (init c e0 (StaticLogger s))) =
     (if trackPageViews c \<and> fst (init c e0 (StaticLogger s)) = Returned None
      then [pageview_entry c e0] else [])"
    by (simp add: init_pending)
  have "set (pendingEntries (lg ?p0)) \<subseteq> set (pendingEntries (snd (init c e0 (StaticLogger s))))"
    "set (concat (inflight ?p0)) \<subseteq> set (pendingEntries (snd (init c e0 (StaticLogger s))))"
    "set (concat (map (\<lambda>r. body_entries (body r)) (sent ?p0)))
       \<subseteq> set (pendingEntries (snd (init c e0 (StaticLogger s))))"
    by simp_all
  from run_keeps_created [OF this, of c evs] i pending_loadFromStorage [of e0 st]
  show ?thesis
    by blast
qed

section \<open>Exceptions of the storage\<close>

text \<open>
  Loading and saving swallow every exception of the storage, so no capture call and no
  \<open>init\<close> of either logger throws one; the only exception they can throw is the
  \<^verbatim>\<open>TypeError\<close> of a push onto a log that is not an array. \<open>clear\<close> and \<open>clearLogs\<close>
  throw exactly when \<^verbatim>\<open>removeItem\<close> does.
\<close>

lemma capture_outcome:
  "fst (capture c e k st) = Returned (returned c e k) \<or> fst (capture c e k st) = Thrown TypeError"
  "fst (capture' e k' st') = Returned None \<or> fst (capture' e k' st') = Thrown TypeError"
proof -
  show "fst (capture c e k st) = Returned (returned c e k) \<or>
        fst (capture c e k st) = Thrown TypeError"
    by (cases "\<exists>xs. entries st = JArr xs")
       (auto simp: capture_array capture_not_array simp del: capture.simps)
  show "fst (capture' e k' st') = Returned None \<or> fst (capture' e k' st') = Thrown TypeError"
    by (cases "\<exists>xs. logs st' = JArr xs")
       (auto simp: capture'_array capture'_not_array simp del: capture'.simps)
qed

lemma init_outcome:
  "fst (init c e st) = Returned None \<or> fst (init c e st) = Thrown TypeError"
  "fst (init' e st') = Returned None \<or> fst (init' e st') = Thrown TypeError"
proof -
  have "fst (capture c e TrackPageView (loadFromStorage e st)) = Returned None \<or>
        fst (capture c e TrackPageView (loadFromStorage e st)) = Thrown TypeError"
    using capture_outcome(1) [of c e TrackPageView] by simp
  then show "fst (init c e st) = Returned None \<or> fst (init c e st) = Thrown TypeError"
    by (auto simp: init_def Let_def split: prod.splits outcome.splits)
  show "fst (init' e st') = Returned None \<or> fst (init' e st') = Thrown TypeError"
    by (cases "logs (loadLogs e st')") (simp_all add: init'_def logPageView_log')
qed

lemma clear_outcome:
  "fst (clear e st) = (if removeItem_throws e then Thrown StorageError else Returned None)"
  "fst (clearLogs e st') = (if removeItem_throws e then Thrown StorageError else Returned None)"
  by (simp_all add: clear_def clearLogs_def removeItem_def Let_def)

text \<open>
  \<^bold>\<open>C7\<close> does not hold of \<open>clear\<close> and \<open>clearLogs\<close>: when
  \<^verbatim>\<open>localStorage.removeItem\<close> throws, the exception reaches the caller. The log and the
  queue have been emptied in memory by then; the slot keeps its value.
\<close>

theorem clear_throws:
  "clear (sample_env\<lparr>removeItem_throws := True\<rparr>)
     ((StaticLogger (Some (JsonText (JArr [info_entry ''a'']))))
        \<lparr>entries := JArr [info_entry ''a''], pendingEntries := [info_entry ''a'']\<rparr>) =
     (Thrown StorageError, StaticLogger (Some (JsonText (JArr [info_entry ''a''])))) \<and>
   clearLogs (sample_env\<lparr>removeItem_throws := True\<rparr>)
     ((StaticLogger' (Some (JsonText (JArr [info_entry ''a'']))))
        \<lparr>logs := JArr [info_entry ''a'']\<rparr>) =
     (Thrown StorageError, StaticLogger' (Some (JsonText (JArr [info_entry ''a'']))))"
  by (simp add: clear_def clearLogs_def removeItem_def sample_env_def StaticLogger_def
        StaticLogger'_def Let_def)

end
